theory Spec2Isabelle
  imports Main "HOL-Library.Word"
begin

section \<open>Python values and the parts of the standard library the decoder uses\<close>

text \<open>
  A Python \<open>bytes\<close> object is a list of 8-bit words, a Python \<open>str\<close> is a
  \<open>string\<close>, a Python \<open>int\<close> is an \<open>int\<close>.  Sizes and offsets, which are
  never negative, are natural numbers.
\<close>

type_synonym byte = "8 word"
type_synonym bytes = "byte list"

datatype error =
    TruncatedInputError
  | StructError
  | TypeError
  | ValueError
  | OSError

text \<open>Sequencing of fallible steps: the first raise ends the computation.\<close>

definition bind_err :: "error + 'a \<Rightarrow> ('a \<Rightarrow> error + 'b) \<Rightarrow> error + 'b" where
  "bind_err m f = (case m of Inl e \<Rightarrow> Inl e | Inr x \<Rightarrow> f x)"

subsection \<open>Decimal text: \<open>str(i)\<close> and the \<open>%d\<close> conversion\<close>

definition digit_char :: "nat \<Rightarrow> char" where
  "digit_char d = char_of (48 + d)"

fun str_nat :: "nat \<Rightarrow> string" where
  "str_nat n = (if n < 10 then [digit_char n] else str_nat (n div 10) @ [digit_char (n mod 10)])"

declare str_nat.simps [simp del]

definition py_str :: "int \<Rightarrow> string" where
  "py_str i = (if i < 0 then ''-'' @ str_nat (nat (- i)) else str_nat (nat i))"

subsection \<open>\<open>struct\<close> format strings\<close>

text \<open>
  The format codes that occur in the repository: \<open>B\<close>, \<open>H\<close>, \<open>I\<close>,
  \<open>Q\<close> (unsigned integers of 1, 2, 4 and 8 bytes) and \<open>s\<close> (a byte string whose
  length is the count in front of it).  A format starts with an optional character for
  byte order, size and alignment: \<open>!\<close> and \<open>>\<close> are big-endian, \<open><\<close> and
  \<open>=\<close> little-endian, all four without alignment; \<open>@\<close>, or no such character,
  is the native mode, taken to be little-endian, where every integer is aligned to its
  own size (the repository uses the native mode only to compute sizes).  The other
  codes of the module do not occur in the repository and are left out: the parser
  rejects them, as it rejects a malformed format, with \<open>struct.error\<close>.
\<close>

datatype fld = Fld_B | Fld_H | Fld_I | Fld_Q | Fld_s nat

datatype byte_order = Big_endian | Little_endian

record layout =
  order :: byte_order
  aligned :: bool
  flds :: "fld list"

definition py_isdigit :: "char \<Rightarrow> bool" where
  "py_isdigit c = (48 \<le> (of_char c :: nat) \<and> (of_char c :: nat) \<le> 57)"

definition py_digit_val :: "char \<Rightarrow> nat" where
  "py_digit_val c = (of_char c :: nat) - 48"

definition py_isspace :: "char \<Rightarrow> bool" where
  "py_isspace c = ((of_char c :: nat) \<in> {32, 9, 10, 11, 12, 13})"

definition code_fld :: "char \<Rightarrow> fld option" where
  "code_fld c =
     (if c = CHR ''B'' then Some Fld_B
      else if c = CHR ''H'' then Some Fld_H
      else if c = CHR ''I'' then Some Fld_I
      else if c = CHR ''Q'' then Some Fld_Q
      else None)"

text \<open>
  The items of a format, read left to right.  The first argument is the repeat count
  read so far.  White space between items is skipped; white space between a count and
  its code, and a count with no code after it, are errors.
\<close>

fun parse_items :: "nat option \<Rightarrow> string \<Rightarrow> fld list option" where
  "parse_items None [] = Some []"
| "parse_items (Some n) [] = None"
| "parse_items cnt (c # cs) =
     (if py_isdigit c then
        parse_items (Some (10 * (case cnt of None \<Rightarrow> 0 | Some n \<Rightarrow> n) + py_digit_val c)) cs
      else if py_isspace c then
        (case cnt of None \<Rightarrow> parse_items None cs | Some n \<Rightarrow> None)
      else if c = CHR ''s'' then
        map_option (\<lambda>r. Fld_s (case cnt of None \<Rightarrow> 1 | Some n \<Rightarrow> n) # r)
          (parse_items None cs)
      else
        (case code_fld c of
           None \<Rightarrow> None
         | Some f \<Rightarrow>
             map_option (\<lambda>r. replicate (case cnt of None \<Rightarrow> 1 | Some n \<Rightarrow> n) f @ r)
               (parse_items None cs)))"

definition parse_format :: "string \<Rightarrow> layout option" where
  "parse_format fmt =
     (case fmt of
        [] \<Rightarrow> Some \<lparr>order = Little_endian, aligned = True, flds = []\<rparr>
      | c # cs \<Rightarrow>
          if c = CHR ''!'' \<or> c = CHR ''>'' then
            map_option (\<lambda>fs. \<lparr>order = Big_endian, aligned = False, flds = fs\<rparr>)
              (parse_items None cs)
          else if c = CHR ''<'' \<or> c = CHR ''='' then
            map_option (\<lambda>fs. \<lparr>order = Little_endian, aligned = False, flds = fs\<rparr>)
              (parse_items None cs)
          else if c = CHR ''@'' then
            map_option (\<lambda>fs. \<lparr>order = Little_endian, aligned = True, flds = fs\<rparr>)
              (parse_items None cs)
          else
            map_option (\<lambda>fs. \<lparr>order = Little_endian, aligned = True, flds = fs\<rparr>)
              (parse_items None fmt))"

fun fld_size :: "fld \<Rightarrow> nat" where
  "fld_size Fld_B = 1"
| "fld_size Fld_H = 2"
| "fld_size Fld_I = 4"
| "fld_size Fld_Q = 8"
| "fld_size (Fld_s n) = n"

fun fld_align :: "fld \<Rightarrow> nat" where
  "fld_align (Fld_s n) = 1"
| "fld_align f = fld_size f"

text \<open>The number of padding bytes in front of a field that starts at offset \<open>off\<close>.\<close>

definition pad_before :: "bool \<Rightarrow> nat \<Rightarrow> fld \<Rightarrow> nat" where
  "pad_before al off f =
     (if al then (fld_align f - off mod fld_align f) mod fld_align f else 0)"

fun layout_size :: "bool \<Rightarrow> nat \<Rightarrow> fld list \<Rightarrow> nat" where
  "layout_size al off [] = off"
| "layout_size al off (f # fs) = layout_size al (off + pad_before al off f + fld_size f) fs"

definition calcsize :: "string \<Rightarrow> error + nat" where
  "calcsize fmt =
     (case parse_format fmt of
        None \<Rightarrow> Inl StructError
      | Some l \<Rightarrow> Inr (layout_size (aligned l) 0 (flds l)))"

subsection \<open>\<open>struct.unpack\<close>\<close>

datatype pyval = PyInt int | PyBytes bytes

text \<open>The unsigned integer that a sequence of bytes denotes, the first byte being the
  most significant.\<close>

definition be_int :: "bytes \<Rightarrow> int" where
  "be_int bs = foldl (\<lambda>acc b. acc * 256 + uint b) 0 bs"

definition decode_fld :: "byte_order \<Rightarrow> fld \<Rightarrow> bytes \<Rightarrow> pyval" where
  "decode_fld bo f bs =
     (case f of
        Fld_s n \<Rightarrow> PyBytes bs
      | _ \<Rightarrow> PyInt (be_int (case bo of Big_endian \<Rightarrow> bs | Little_endian \<Rightarrow> rev bs)))"

fun unpack_fields :: "byte_order \<Rightarrow> bool \<Rightarrow> nat \<Rightarrow> fld list \<Rightarrow> bytes \<Rightarrow> pyval list" where
  "unpack_fields bo al off [] bs = []"
| "unpack_fields bo al off (f # fs) bs =
     decode_fld bo f (take (fld_size f) (drop (pad_before al off f) bs))
       # unpack_fields bo al (off + pad_before al off f + fld_size f) fs
           (drop (pad_before al off f + fld_size f) bs)"

text \<open>\<open>struct.unpack\<close> raises unless the buffer has exactly the size of the format.\<close>

definition struct_unpack :: "string \<Rightarrow> bytes \<Rightarrow> error + pyval list" where
  "struct_unpack fmt bs =
     (case parse_format fmt of
        None \<Rightarrow> Inl StructError
      | Some l \<Rightarrow>
          if length bs \<noteq> layout_size (aligned l) 0 (flds l) then Inl StructError
          else Inr (unpack_fields (order l) (aligned l) 0 (flds l) bs))"

subsection \<open>\<open>socket.inet_ntoa\<close>\<close>

text \<open>Four packed bytes as dotted-quad text; any other length raises \<open>OSError\<close>.\<close>

definition inet_ntoa :: "bytes \<Rightarrow> error + string" where
  "inet_ntoa packed =
     (case packed of
        [a, b, c, d] \<Rightarrow>
          Inr (str_nat (unat a) @ ''.'' @ str_nat (unat b) @ ''.'' @ str_nat (unat c)
                 @ ''.'' @ str_nat (unat d))
      | _ \<Rightarrow> Inl OSError)"

section \<open>The decoding base class\<close>

text \<open>
  Modelled from the spec: \<open>UnpackableMixin\<close> (\<open>pfsync/mixins.py\<close>), the base class
  of every record class, whose \<open>get_cstruct_size\<close> and \<open>from_data\<close> the sources
  call but do not contain.  Following the specification's FixedLayoutDecoder: the size
  of a class is the size of its layout; decoding fails with \<open>TruncatedInputError\<close>
  if the buffer is shorter than that size, and otherwise consumes exactly that many
  bytes from the front of the buffer, decodes the fields, builds the object from them
  with the class's \<open>__init__\<close> and returns it with the bytes that remain.  The
  first argument is what the class's \<open>get_unpack_format\<close> returns.
\<close>

definition get_cstruct_size :: "error + string \<Rightarrow> error + nat" where
  "get_cstruct_size cls_format = bind_err cls_format calcsize"

definition from_data ::
    "error + string \<Rightarrow> (pyval list \<Rightarrow> error + 'a) \<Rightarrow> bytes \<Rightarrow> error + ('a \<times> bytes)" where
  "from_data cls_format init data =
     bind_err cls_format (\<lambda>fmt.
     bind_err (get_cstruct_size cls_format) (\<lambda>size.
       if length data < size then Inl TruncatedInputError
       else
         bind_err (struct_unpack fmt (take size data)) (\<lambda>unpacked.
         bind_err (init unpacked) (\<lambda>obj.
           Inr (obj, drop size data)))))"

section \<open>\<open>pfsync/messages.py\<close>\<close>

subsection \<open>\<open>PFStateKey\<close>\<close>

record pf_state_key =
  addr :: "string \<times> string"
  port :: "int \<times> int"

definition PFStateKey_unpack_format :: string where
  "PFStateKey_unpack_format = ''!16s16s 2H''"

definition format_addr :: "bytes \<Rightarrow> error + string" where
  "format_addr a = inet_ntoa (take 4 a)"

text \<open>
  \<open>__init__(self, addr1, addr2, port1, port2)\<close>.  The fields are typed the way
  \<open>struct.unpack\<close> delivers them for the class's format; a call with another
  number of arguments is a \<open>TypeError\<close>.
\<close>

definition PFStateKey_init :: "pyval list \<Rightarrow> error + pf_state_key" where
  "PFStateKey_init args =
     (case args of
        [PyBytes addr1, PyBytes addr2, PyInt port1, PyInt port2] \<Rightarrow>
          bind_err (format_addr addr1) (\<lambda>a1.
          bind_err (format_addr addr2) (\<lambda>a2.
            Inr \<lparr>addr = (a1, a2), port = (port1, port2)\<rparr>))
      | _ \<Rightarrow> Inl TypeError)"

definition PFStateKey_from_data :: "bytes \<Rightarrow> error + (pf_state_key \<times> bytes)" where
  "PFStateKey_from_data = from_data (Inr PFStateKey_unpack_format) PFStateKey_init"

subsection \<open>\<open>MessageState\<close>\<close>

record message_state =
  st_id :: int
  st_creator :: int
  st_interface :: bytes
  st_key :: "pf_state_key \<times> pf_state_key"
  st_packets :: "(int \<times> int) \<times> (int \<times> int)"
  st_bytes :: "(int \<times> int) \<times> (int \<times> int)"
  st_protocol :: int
  st_direction :: int
  st_timeout :: int
  st_expire :: int
  st_creation :: int
  st_rule :: int
  st_log :: int

text \<open>\<open>'%d' % n\<close> followed by the rest of the format.\<close>

definition state_peer_size :: "error + nat" where
  "state_peer_size =
     bind_err (calcsize ''HBBI'') (\<lambda>n. calcsize (str_nat n @ ''sIIIHHBB6B''))"

definition MessageState_get_unpack_format :: "error + string" where
  "MessageState_get_unpack_format =
     bind_err (get_cstruct_size (Inr PFStateKey_unpack_format)) (\<lambda>state_key_size.
     bind_err state_peer_size (\<lambda>peer_size.
       Inr (''!Q 16s''
            @ (str_nat state_key_size @ ''s'' @ str_nat state_key_size @ ''s'')
            @ (str_nat peer_size @ ''s'' @ str_nat peer_size @ ''s'')
            @ ''4I IIIII 4I 4I I B BB 2B BBBBB'')))"

text \<open>\<open>ifname.split(b'\0')[0]\<close>: the bytes in front of the first NUL.\<close>

definition split_nul_first :: "bytes \<Rightarrow> bytes" where
  "split_nul_first ifname = takeWhile (\<lambda>b. b \<noteq> 0) ifname"

text \<open>
  \<open>__init__(self, *args)\<close> unpacks exactly 34 positional values (a
  \<open>ValueError\<close> otherwise) and ignores those bound to \<open>_\<close>.
\<close>

definition MessageState_init :: "pyval list \<Rightarrow> error + message_state" where
  "MessageState_init args =
     (if length args \<noteq> 34 then Inl ValueError
      else
        (case args of
           [PyInt id', PyBytes ifname,
            PyBytes key1, PyBytes key2,
            _, _,
            _, _, _, _,
            PyInt rule, _, _,
            PyInt creation, PyInt expire,
            PyInt packets1, PyInt packets2, PyInt packets3, PyInt packets4,
            PyInt bytes1, PyInt bytes2, PyInt bytes3, PyInt bytes4,
            PyInt creator_id,
            _,
            PyInt protocol,
            PyInt direction,
            _, _,
            PyInt log,
            _,
            PyInt timeout, _, _] \<Rightarrow>
             bind_err (PFStateKey_from_data key1) (\<lambda>k1.
             bind_err (PFStateKey_from_data key2) (\<lambda>k2.
               Inr \<lparr>st_id = id',
                    st_creator = creator_id,
                    st_interface = split_nul_first ifname,
                    st_key = (fst k1, fst k2),
                    st_packets = ((packets1, packets2), (packets3, packets4)),
                    st_bytes = ((bytes1, bytes2), (bytes3, bytes4)),
                    st_protocol = protocol,
                    st_direction = direction,
                    st_timeout = timeout,
                    st_expire = expire,
                    st_creation = creation,
                    st_rule = rule,
                    st_log = log\<rparr>))
         | _ \<Rightarrow> Inl TypeError))"

definition MessageState_from_data :: "bytes \<Rightarrow> error + (message_state \<times> bytes)" where
  "MessageState_from_data = from_data MessageState_get_unpack_format MessageState_init"

definition is_nat :: "message_state \<Rightarrow> bool" where
  "is_nat m = (snd (addr (snd (st_key m))) \<noteq> snd (addr (fst (st_key m))))"

definition get_protocol_name :: "message_state \<Rightarrow> string" where
  "get_protocol_name m =
     (if st_protocol m = 1 then ''ICMP''
      else if st_protocol m = 6 then ''TCP''
      else if st_protocol m = 17 then ''UDP''
      else if st_protocol m = 112 then ''VRRP''
      else py_str (st_protocol m))"

subsection \<open>The messages with an id and a creator\<close>

record message_delete_compressed =
  delc_id :: int
  delc_creator :: int

definition MessageDeleteCompressed_unpack_format :: string where
  "MessageDeleteCompressed_unpack_format = ''!QI''"

definition MessageDeleteCompressed_init :: "pyval list \<Rightarrow> error + message_delete_compressed" where
  "MessageDeleteCompressed_init args =
     (case args of
        [PyInt id', PyInt creator_id] \<Rightarrow> Inr \<lparr>delc_id = id', delc_creator = creator_id\<rparr>
      | _ \<Rightarrow> Inl TypeError)"

definition MessageDeleteCompressed_from_data ::
    "bytes \<Rightarrow> error + (message_delete_compressed \<times> bytes)" where
  "MessageDeleteCompressed_from_data =
     from_data (Inr MessageDeleteCompressed_unpack_format) MessageDeleteCompressed_init"

record message_insert_ack =
  ack_id :: int
  ack_creator :: int

definition MessageInsertAck_unpack_format :: string where
  "MessageInsertAck_unpack_format = ''!Q I''"

definition MessageInsertAck_init :: "pyval list \<Rightarrow> error + message_insert_ack" where
  "MessageInsertAck_init args =
     (case args of
        [PyInt id', PyInt creator_id] \<Rightarrow> Inr \<lparr>ack_id = id', ack_creator = creator_id\<rparr>
      | _ \<Rightarrow> Inl TypeError)"

definition MessageInsertAck_from_data :: "bytes \<Rightarrow> error + (message_insert_ack \<times> bytes)" where
  "MessageInsertAck_from_data =
     from_data (Inr MessageInsertAck_unpack_format) MessageInsertAck_init"

record message_update_req =
  req_id :: int
  req_creator :: int

definition MessageUpdateReq_unpack_format :: string where
  "MessageUpdateReq_unpack_format = ''!Q I''"

definition MessageUpdateReq_init :: "pyval list \<Rightarrow> error + message_update_req" where
  "MessageUpdateReq_init args =
     (case args of
        [PyInt id', PyInt creator_id] \<Rightarrow> Inr \<lparr>req_id = id', req_creator = creator_id\<rparr>
      | _ \<Rightarrow> Inl TypeError)"

definition MessageUpdateReq_from_data :: "bytes \<Rightarrow> error + (message_update_req \<times> bytes)" where
  "MessageUpdateReq_from_data =
     from_data (Inr MessageUpdateReq_unpack_format) MessageUpdateReq_init"

subsection \<open>\<open>MessageClear\<close>\<close>

record message_clear =
  clr_interface :: bytes
  clr_creator :: int

definition MessageClear_unpack_format :: string where
  "MessageClear_unpack_format = ''!16s I''"

definition MessageClear_init :: "pyval list \<Rightarrow> error + message_clear" where
  "MessageClear_init args =
     (case args of
        [PyBytes iface, PyInt creator_id] \<Rightarrow>
          Inr \<lparr>clr_interface = iface, clr_creator = creator_id\<rparr>
      | _ \<Rightarrow> Inl TypeError)"

definition MessageClear_from_data :: "bytes \<Rightarrow> error + (message_clear \<times> bytes)" where
  "MessageClear_from_data = from_data (Inr MessageClear_unpack_format) MessageClear_init"

subsection \<open>\<open>MessageUpdateCompressed\<close>\<close>

record message_update_compressed =
  updc_id :: int
  updc_creator :: int
  updc_dst :: bytes
  updc_src :: bytes
  updc_expire :: int
  updc_timeout :: int

definition MessageUpdateCompressed_get_unpack_format :: "error + string" where
  "MessageUpdateCompressed_get_unpack_format =
     bind_err state_peer_size (\<lambda>peer_size.
       Inr (''!Q''
            @ (str_nat peer_size @ ''s'' @ str_nat peer_size @ ''s'')
            @ ''IIB 3B''))"

definition MessageUpdateCompressed_init :: "pyval list \<Rightarrow> error + message_update_compressed" where
  "MessageUpdateCompressed_init args =
     (case args of
        [PyInt id', PyBytes src, PyBytes dst, PyInt creator_id, PyInt expire, PyInt timeout,
         pad1, pad2, pad3] \<Rightarrow>
          Inr \<lparr>updc_id = id',
               updc_creator = creator_id,
               updc_dst = dst,
               updc_src = src,
               updc_expire = expire,
               updc_timeout = timeout\<rparr>
      | _ \<Rightarrow> Inl TypeError)"

definition MessageUpdateCompressed_from_data ::
    "bytes \<Rightarrow> error + (message_update_compressed \<times> bytes)" where
  "MessageUpdateCompressed_from_data =
     from_data MessageUpdateCompressed_get_unpack_format MessageUpdateCompressed_init"

subsection \<open>The message classes as one type\<close>

datatype msg_class =
    MessageState
  | MessageDeleteCompressed
  | MessageClear
  | MessageInsertAck
  | MessageUpdateReq
  | MessageUpdateCompressed

datatype message =
    State_message message_state
  | DeleteCompressed_message message_delete_compressed
  | Clear_message message_clear
  | InsertAck_message message_insert_ack
  | UpdateReq_message message_update_req
  | UpdateCompressed_message message_update_compressed

definition tagged :: "('a \<Rightarrow> message) \<Rightarrow> error + ('a \<times> bytes) \<Rightarrow> error + (message \<times> bytes)" where
  "tagged tag r = bind_err r (\<lambda>(m, rest). Inr (tag m, rest))"

text \<open>\<open>msg_class.from_data(data)\<close>, for a class held in a variable.\<close>

fun message_from_data :: "msg_class \<Rightarrow> bytes \<Rightarrow> error + (message \<times> bytes)" where
  "message_from_data MessageState data = tagged State_message (MessageState_from_data data)"
| "message_from_data MessageDeleteCompressed data =
     tagged DeleteCompressed_message (MessageDeleteCompressed_from_data data)"
| "message_from_data MessageClear data = tagged Clear_message (MessageClear_from_data data)"
| "message_from_data MessageInsertAck data =
     tagged InsertAck_message (MessageInsertAck_from_data data)"
| "message_from_data MessageUpdateReq data =
     tagged UpdateReq_message (MessageUpdateReq_from_data data)"
| "message_from_data MessageUpdateCompressed data =
     tagged UpdateCompressed_message (MessageUpdateCompressed_from_data data)"

section \<open>\<open>pfsync/actions.py\<close>\<close>

text \<open>
  Modelled from the spec: \<open>SubHeader\<close> (\<open>pfsync/headers.py\<close> is not among the
  sources), of which the actions read \<open>action_id\<close>, an integer, and \<open>count\<close>, a
  non-negative integer.
\<close>

record sub_header =
  action_id :: int
  count :: nat

datatype action_class =
    ActionInsertState
  | ActionUpdateState
  | ActionDeleteState
  | ActionDeleteCompressedState
  | ActionClearStates
  | ActionInsertAck
  | ActionUpdateRequestState
  | ActionUpdateCompressedState

fun message_class :: "action_class \<Rightarrow> msg_class" where
  "message_class ActionInsertState = MessageState"
| "message_class ActionUpdateState = MessageState"
| "message_class ActionDeleteState = MessageState"
| "message_class ActionDeleteCompressedState = MessageDeleteCompressed"
| "message_class ActionClearStates = MessageClear"
| "message_class ActionInsertAck = MessageInsertAck"
| "message_class ActionUpdateRequestState = MessageUpdateReq"
| "message_class ActionUpdateCompressedState = MessageUpdateCompressed"

text \<open>An action object: its class, and the two attributes \<open>__init__\<close> sets.\<close>

record action =
  action_cls :: action_class
  header :: sub_header
  messages :: "message list"

definition BaseAction_init :: "action_class \<Rightarrow> sub_header \<Rightarrow> action" where
  "BaseAction_init cls shdr = \<lparr>action_cls = cls, header = shdr, messages = []\<rparr>"

definition get_message_class :: "action_class \<Rightarrow> msg_class" where
  "get_message_class cls = message_class cls"

text \<open>
  The loop \<open>for _ in range(shdr.count)\<close> of \<open>BaseAction.from_data\<close>: the number of
  iterations left, the action built so far and the data not yet consumed.  A decoder
  that raises ends the loop, and the call, with its error.
\<close>

fun from_data_loop ::
    "(bytes \<Rightarrow> error + (message \<times> bytes)) \<Rightarrow> nat \<Rightarrow> action \<Rightarrow> bytes \<Rightarrow> error + (action \<times> bytes)" where
  "from_data_loop msg_from_data 0 act data = Inr (act, data)"
| "from_data_loop msg_from_data (Suc n) act data =
     (case msg_from_data data of
        Inl e \<Rightarrow> Inl e
      | Inr (msg, data') \<Rightarrow>
          from_data_loop msg_from_data n (act\<lparr>messages := messages act @ [msg]\<rparr>) data')"

definition BaseAction_from_data ::
    "action_class \<Rightarrow> bytes \<Rightarrow> sub_header \<Rightarrow> error + (action \<times> bytes)" where
  "BaseAction_from_data cls data shdr =
     from_data_loop (message_from_data (get_message_class cls)) (count shdr)
       (BaseAction_init cls shdr) data"

definition actions :: "action_class option list" where
  "actions =
     [Some ActionClearStates,
      Some ActionInsertState,
      Some ActionInsertAck,
      Some ActionUpdateState,
      Some ActionUpdateCompressedState,
      Some ActionUpdateRequestState,
      Some ActionDeleteState,
      Some ActionDeleteCompressedState,
      None,
      None,
      None,
      None,
      None,
      None,
      None]"

text \<open>
  The result is the action, or \<open>None\<close>, and the data left.  In the \<open>else\<close> branch
  the source returns the empty text \<open>""\<close>, modelled as the empty buffer.
\<close>

definition build_from_header :: "sub_header \<Rightarrow> bytes \<Rightarrow> error + (action option \<times> bytes)" where
  "build_from_header shdr data =
     (if action_id shdr \<ge> 0 \<and> action_id shdr < int (length actions) then
        (case actions ! nat (action_id shdr) of
           Some cls \<Rightarrow>
             bind_err (BaseAction_from_data cls data shdr) (\<lambda>(act, rest). Inr (Some act, rest))
         | None \<Rightarrow> Inr (None, []))
      else Inr (None, []))"

section \<open>Notions used to state the properties\<close>

text \<open>
  The class method \<open>get_unpack_format\<close> of a message class held in a variable: the
  class's own method where it defines one, the attribute \<open>unpack_format\<close> otherwise.
\<close>

fun get_unpack_format :: "msg_class \<Rightarrow> error + string" where
  "get_unpack_format MessageState = MessageState_get_unpack_format"
| "get_unpack_format MessageDeleteCompressed = Inr MessageDeleteCompressed_unpack_format"
| "get_unpack_format MessageClear = Inr MessageClear_unpack_format"
| "get_unpack_format MessageInsertAck = Inr MessageInsertAck_unpack_format"
| "get_unpack_format MessageUpdateReq = Inr MessageUpdateReq_unpack_format"
| "get_unpack_format MessageUpdateCompressed = MessageUpdateCompressed_get_unpack_format"

text \<open>The number of bytes of one message of each class.\<close>

fun required_width :: "msg_class \<Rightarrow> nat" where
  "required_width MessageState = 242"
| "required_width MessageDeleteCompressed = 12"
| "required_width MessageClear = 20"
| "required_width MessageInsertAck = 12"
| "required_width MessageUpdateReq = 12"
| "required_width MessageUpdateCompressed = 84"

text \<open>The text of the address that starts a buffer of at least four bytes.\<close>

definition dotted_quad :: "bytes \<Rightarrow> string" where
  "dotted_quad p =
     str_nat (unat (p ! 0)) @ ''.'' @ str_nat (unat (p ! 1)) @ ''.'' @ str_nat (unat (p ! 2))
       @ ''.'' @ str_nat (unat (p ! 3))"

text \<open>The number that a decimal numeral denotes.\<close>

definition decimal_value :: "string \<Rightarrow> nat" where
  "decimal_value s = foldl (\<lambda>acc c. 10 * acc + py_digit_val c) 0 s"

text \<open>
  The StateMessage layout in the words of the specification's table of wire layouts:
  an 8-byte id, a 16-byte interface name, two state keys of 36 bytes, two peer blocks
  of 32 bytes, a 4-byte \<open>rt_addr\<close>, five 4-byte counters, four 4-byte packet
  counters, four 4-byte byte counters, a 4-byte creator id and eight 1-byte fields.
\<close>

definition spec_state_layout :: "fld list" where
  "spec_state_layout =
     [Fld_Q, Fld_s 16] @ replicate 2 (Fld_s 36) @ replicate 2 (Fld_s 32) @ [Fld_s 4]
       @ replicate 5 Fld_I @ replicate 4 Fld_I @ replicate 4 Fld_I @ [Fld_I]
       @ replicate 8 Fld_B"

text \<open>
  The same with the two groups as the code lays them out: \<open>rt_addr\<close> as four 4-byte
  words and ten 1-byte fields.
\<close>

definition code_state_layout :: "fld list" where
  "code_state_layout =
     [Fld_Q, Fld_s 16] @ replicate 2 (Fld_s 36) @ replicate 2 (Fld_s 32) @ replicate 4 Fld_I
       @ replicate 5 Fld_I @ replicate 4 Fld_I @ replicate 4 Fld_I @ [Fld_I]
       @ replicate 10 Fld_B"

text \<open>The layout that a class declares: its format, parsed.\<close>

definition declared_layout :: "error + string \<Rightarrow> error + layout" where
  "declared_layout fmt_or_error =
     bind_err fmt_or_error (\<lambda>fmt.
       case parse_format fmt of None \<Rightarrow> Inl StructError | Some l \<Rightarrow> Inr l)"

section \<open>Sequencing, text and layouts\<close>

lemma bind_err_Inl [simp]: "bind_err (Inl e) f = Inl e"
  by (simp add: bind_err_def)

lemma bind_err_Inr [simp]: "bind_err (Inr x) f = f x"
  by (simp add: bind_err_def)

lemma take_4_nth:
  "4 \<le> length xs \<Longrightarrow> take 4 xs = [xs ! 0, xs ! 1, xs ! 2, xs ! 3]"
  by (cases xs; cases "tl xs"; cases "tl (tl xs)"; cases "tl (tl (tl xs))") auto

lemma format_addr_ok: "4 \<le> length a \<Longrightarrow> format_addr a = Inr (dotted_quad a)"
  by (simp add: format_addr_def take_4_nth inet_ntoa_def dotted_quad_def)

lemma pad_before_False [simp]: "pad_before False off f = 0"
  by (simp add: pad_before_def)

lemma decode_fld_s [simp]: "decode_fld bo (Fld_s n) bs = PyBytes bs"
  by (simp add: decode_fld_def)

lemma decode_fld_be [simp]:
  "decode_fld Big_endian Fld_B bs = PyInt (be_int bs)"
  "decode_fld Big_endian Fld_H bs = PyInt (be_int bs)"
  "decode_fld Big_endian Fld_I bs = PyInt (be_int bs)"
  "decode_fld Big_endian Fld_Q bs = PyInt (be_int bs)"
  by (simp_all add: decode_fld_def)

text \<open>Decoding with a format in network order, once the format is parsed.\<close>

lemma from_data_network:
  assumes "parse_format fmt = Some \<lparr>order = Big_endian, aligned = False, flds = fs\<rparr>"
  shows "from_data (Inr fmt) init data =
     (if length data < layout_size False 0 fs then Inl TruncatedInputError
      else bind_err (init (unpack_fields Big_endian False 0 fs (take (layout_size False 0 fs) data)))
             (\<lambda>obj. Inr (obj, drop (layout_size False 0 fs) data)))"
  using assms
  by (simp add: from_data_def get_cstruct_size_def calcsize_def struct_unpack_def)

section \<open>What each decoder returns\<close>

lemma parse_PFStateKey:
  "parse_format PFStateKey_unpack_format =
     Some \<lparr>order = Big_endian, aligned = False, flds = [Fld_s 16, Fld_s 16, Fld_H, Fld_H]\<rparr>"
  by code_simp

lemma PFStateKey_from_data_eq:
  "PFStateKey_from_data data =
     (if length data < 36 then Inl TruncatedInputError
      else Inr (\<lparr>addr = (dotted_quad data, dotted_quad (drop 16 data)),
                 port = (be_int (take 2 (drop 32 data)), be_int (take 2 (drop 34 data)))\<rparr>,
                drop 36 data))"
  unfolding PFStateKey_from_data_def from_data_network [OF parse_PFStateKey]
  by (simp add: PFStateKey_init_def format_addr_ok dotted_quad_def drop_take)

lemma MessageState_format:
  "MessageState_get_unpack_format = Inr ''!Q 16s36s36s32s32s4I IIIII 4I 4I I B BB 2B BBBBB''"
  by code_simp

lemma parse_MessageState:
  "parse_format ''!Q 16s36s36s32s32s4I IIIII 4I 4I I B BB 2B BBBBB'' =
     Some \<lparr>order = Big_endian, aligned = False,
           flds = [Fld_Q, Fld_s 16, Fld_s 36, Fld_s 36, Fld_s 32, Fld_s 32,
                   Fld_I, Fld_I, Fld_I, Fld_I,
                   Fld_I, Fld_I, Fld_I, Fld_I, Fld_I,
                   Fld_I, Fld_I, Fld_I, Fld_I,
                   Fld_I, Fld_I, Fld_I, Fld_I,
                   Fld_I,
                   Fld_B, Fld_B, Fld_B, Fld_B, Fld_B, Fld_B, Fld_B, Fld_B, Fld_B, Fld_B]\<rparr>"
  by code_simp

lemma MessageState_from_data_eq:
  "MessageState_from_data data =
     (if length data < 242 then Inl TruncatedInputError
      else Inr (\<lparr>st_id = be_int (take 8 data),
                 st_creator = be_int (take 4 (drop 228 data)),
                 st_interface = split_nul_first (take 16 (drop 8 data)),
                 st_key =
                   (\<lparr>addr = (dotted_quad (drop 24 data), dotted_quad (drop 40 data)),
                      port = (be_int (take 2 (drop 56 data)), be_int (take 2 (drop 58 data)))\<rparr>,
                    \<lparr>addr = (dotted_quad (drop 60 data), dotted_quad (drop 76 data)),
                      port = (be_int (take 2 (drop 92 data)), be_int (take 2 (drop 94 data)))\<rparr>),
                 st_packets =
                   ((be_int (take 4 (drop 196 data)), be_int (take 4 (drop 200 data))),
                    (be_int (take 4 (drop 204 data)), be_int (take 4 (drop 208 data)))),
                 st_bytes =
                   ((be_int (take 4 (drop 212 data)), be_int (take 4 (drop 216 data))),
                    (be_int (take 4 (drop 220 data)), be_int (take 4 (drop 224 data)))),
                 st_protocol = be_int (take 1 (drop 233 data)),
                 st_direction = be_int (take 1 (drop 234 data)),
                 st_timeout = be_int (take 1 (drop 239 data)),
                 st_expire = be_int (take 4 (drop 192 data)),
                 st_creation = be_int (take 4 (drop 188 data)),
                 st_rule = be_int (take 4 (drop 176 data)),
                 st_log = be_int (take 1 (drop 237 data))\<rparr>,
                drop 242 data))"
  unfolding MessageState_from_data_def MessageState_format from_data_network [OF parse_MessageState]
  by (simp add: MessageState_init_def PFStateKey_from_data_eq drop_take dotted_quad_def)

lemma parse_id_creator:
  "parse_format ''!QI'' = Some \<lparr>order = Big_endian, aligned = False, flds = [Fld_Q, Fld_I]\<rparr>"
  "parse_format ''!Q I'' = Some \<lparr>order = Big_endian, aligned = False, flds = [Fld_Q, Fld_I]\<rparr>"
  by code_simp+

lemma MessageDeleteCompressed_from_data_eq:
  "MessageDeleteCompressed_from_data data =
     (if length data < 12 then Inl TruncatedInputError
      else Inr (\<lparr>delc_id = be_int (take 8 data), delc_creator = be_int (take 4 (drop 8 data))\<rparr>,
                drop 12 data))"
  unfolding MessageDeleteCompressed_from_data_def MessageDeleteCompressed_unpack_format_def
    from_data_network [OF parse_id_creator(1)]
  by (simp add: MessageDeleteCompressed_init_def drop_take)

lemma MessageInsertAck_from_data_eq:
  "MessageInsertAck_from_data data =
     (if length data < 12 then Inl TruncatedInputError
      else Inr (\<lparr>ack_id = be_int (take 8 data), ack_creator = be_int (take 4 (drop 8 data))\<rparr>,
                drop 12 data))"
  unfolding MessageInsertAck_from_data_def MessageInsertAck_unpack_format_def
    from_data_network [OF parse_id_creator(2)]
  by (simp add: MessageInsertAck_init_def drop_take)

lemma MessageUpdateReq_from_data_eq:
  "MessageUpdateReq_from_data data =
     (if length data < 12 then Inl TruncatedInputError
      else Inr (\<lparr>req_id = be_int (take 8 data), req_creator = be_int (take 4 (drop 8 data))\<rparr>,
                drop 12 data))"
  unfolding MessageUpdateReq_from_data_def MessageUpdateReq_unpack_format_def
    from_data_network [OF parse_id_creator(2)]
  by (simp add: MessageUpdateReq_init_def drop_take)

lemma parse_MessageClear:
  "parse_format MessageClear_unpack_format =
     Some \<lparr>order = Big_endian, aligned = False, flds = [Fld_s 16, Fld_I]\<rparr>"
  by code_simp

lemma MessageClear_from_data_eq:
  "MessageClear_from_data data =
     (if length data < 20 then Inl TruncatedInputError
      else Inr (\<lparr>clr_interface = take 16 data, clr_creator = be_int (take 4 (drop 16 data))\<rparr>,
                drop 20 data))"
  unfolding MessageClear_from_data_def from_data_network [OF parse_MessageClear]
  by (simp add: MessageClear_init_def drop_take)

lemma MessageUpdateCompressed_format:
  "MessageUpdateCompressed_get_unpack_format = Inr ''!Q32s32sIIB 3B''"
  by code_simp

lemma parse_MessageUpdateCompressed:
  "parse_format ''!Q32s32sIIB 3B'' =
     Some \<lparr>order = Big_endian, aligned = False,
           flds = [Fld_Q, Fld_s 32, Fld_s 32, Fld_I, Fld_I, Fld_B, Fld_B, Fld_B, Fld_B]\<rparr>"
  by code_simp

lemma MessageUpdateCompressed_from_data_eq:
  "MessageUpdateCompressed_from_data data =
     (if length data < 84 then Inl TruncatedInputError
      else Inr (\<lparr>updc_id = be_int (take 8 data),
                 updc_creator = be_int (take 4 (drop 72 data)),
                 updc_dst = take 32 (drop 40 data),
                 updc_src = take 32 (drop 8 data),
                 updc_expire = be_int (take 4 (drop 76 data)),
                 updc_timeout = be_int (take 1 (drop 80 data))\<rparr>,
                drop 84 data))"
  unfolding MessageUpdateCompressed_from_data_def MessageUpdateCompressed_format
    from_data_network [OF parse_MessageUpdateCompressed]
  by (simp add: MessageUpdateCompressed_init_def drop_take)

lemma tagged_Inl [simp]: "tagged tag (Inl e) = Inl e"
  by (simp add: tagged_def)

lemma tagged_Inr [simp]: "tagged tag (Inr (m, rest)) = Inr (tag m, rest)"
  by (simp add: tagged_def)

lemma message_from_data_short:
  "length data < required_width mc \<Longrightarrow> message_from_data mc data = Inl TruncatedInputError"
  by (cases mc)
     (simp_all add: MessageState_from_data_eq MessageDeleteCompressed_from_data_eq
        MessageClear_from_data_eq MessageInsertAck_from_data_eq MessageUpdateReq_from_data_eq
        MessageUpdateCompressed_from_data_eq)

lemma message_from_data_long:
  "required_width mc \<le> length data \<Longrightarrow>
     \<exists>m. message_from_data mc data = Inr (m, drop (required_width mc) data)"
  by (cases mc)
     (simp_all add: MessageState_from_data_eq MessageDeleteCompressed_from_data_eq
        MessageClear_from_data_eq MessageInsertAck_from_data_eq MessageUpdateReq_from_data_eq
        MessageUpdateCompressed_from_data_eq)

lemma get_cstruct_size_classes:
  "get_cstruct_size (get_unpack_format MessageState) = Inr 242"
  "get_cstruct_size (get_unpack_format MessageDeleteCompressed) = Inr 12"
  "get_cstruct_size (get_unpack_format MessageClear) = Inr 20"
  "get_cstruct_size (get_unpack_format MessageInsertAck) = Inr 12"
  "get_cstruct_size (get_unpack_format MessageUpdateReq) = Inr 12"
  "get_cstruct_size (get_unpack_format MessageUpdateCompressed) = Inr 84"
  by code_simp+

lemma get_cstruct_size_message:
  "get_cstruct_size (get_unpack_format mc) = Inr (required_width mc)"
  by (cases mc) (simp_all only: get_cstruct_size_classes required_width.simps)

lemma declared_layout_MessageState:
  "declared_layout MessageState_get_unpack_format =
     Inr \<lparr>order = Big_endian, aligned = False, flds = code_state_layout\<rparr>"
  unfolding declared_layout_def MessageState_format
  by (simp add: parse_MessageState code_state_layout_def numeral_eq_Suc)

lemma be_int_snoc: "be_int (bs @ [b]) = be_int bs * 256 + uint b"
  by (simp add: be_int_def)

section \<open>The loop of an action\<close>

lemma from_data_loop_iff:
  "from_data_loop dec n act data = Inr (act', rest) \<longleftrightarrow>
     (\<exists>ms bufs. length ms = n \<and> length bufs = Suc n \<and> bufs ! 0 = data \<and> bufs ! n = rest
        \<and> (\<forall>i<n. dec (bufs ! i) = Inr (ms ! i, bufs ! Suc i))
        \<and> act' = act\<lparr>messages := messages act @ ms\<rparr>)"
proof (induction n arbitrary: act data)
  case 0
  show ?case
  proof
    assume "from_data_loop dec 0 act data = Inr (act', rest)"
    then have "act' = act" "rest = data" by simp_all
    then have "length ([] :: message list) = 0 \<and> length [data] = Suc 0 \<and> [data] ! 0 = data
        \<and> [data] ! 0 = rest \<and> (\<forall>i<0. dec ([data] ! i) = Inr ([] ! i, [data] ! Suc i))
        \<and> act' = act\<lparr>messages := messages act @ []\<rparr>"
      by simp
    then show "\<exists>ms bufs. length ms = 0 \<and> length bufs = Suc 0 \<and> bufs ! 0 = data \<and> bufs ! 0 = rest
        \<and> (\<forall>i<0. dec (bufs ! i) = Inr (ms ! i, bufs ! Suc i))
        \<and> act' = act\<lparr>messages := messages act @ ms\<rparr>"
      by blast
  next
    assume "\<exists>ms bufs. length ms = 0 \<and> length bufs = Suc 0 \<and> bufs ! 0 = data \<and> bufs ! 0 = rest
        \<and> (\<forall>i<0. dec (bufs ! i) = Inr (ms ! i, bufs ! Suc i))
        \<and> act' = act\<lparr>messages := messages act @ ms\<rparr>"
    then show "from_data_loop dec 0 act data = Inr (act', rest)" by auto
  qed
next
  case (Suc n)
  show ?case
  proof
    assume run: "from_data_loop dec (Suc n) act data = Inr (act', rest)"
    then obtain m d' where dec: "dec data = Inr (m, d')"
      and rest: "from_data_loop dec n (act\<lparr>messages := messages act @ [m]\<rparr>) d' = Inr (act', rest)"
      by (auto split: sum.splits)
    from rest obtain ms bufs where h: "length ms = n" "length bufs = Suc n" "bufs ! 0 = d'"
      "bufs ! n = rest" "\<forall>i<n. dec (bufs ! i) = Inr (ms ! i, bufs ! Suc i)"
      "act' = act\<lparr>messages := messages act @ [m] @ ms\<rparr>"
      unfolding Suc.IH by auto
    have "\<forall>i<Suc n. dec ((data # bufs) ! i) = Inr ((m # ms) ! i, (data # bufs) ! Suc i)"
      using dec h(3,5) by (auto simp: nth_Cons split: nat.splits)
    with h show "\<exists>ms bufs. length ms = Suc n \<and> length bufs = Suc (Suc n) \<and> bufs ! 0 = data
        \<and> bufs ! Suc n = rest \<and> (\<forall>i<Suc n. dec (bufs ! i) = Inr (ms ! i, bufs ! Suc i))
        \<and> act' = act\<lparr>messages := messages act @ ms\<rparr>"
      by (intro exI [of _ "m # ms"] exI [of _ "data # bufs"]) simp
  next
    assume "\<exists>ms bufs. length ms = Suc n \<and> length bufs = Suc (Suc n) \<and> bufs ! 0 = data
        \<and> bufs ! Suc n = rest \<and> (\<forall>i<Suc n. dec (bufs ! i) = Inr (ms ! i, bufs ! Suc i))
        \<and> act' = act\<lparr>messages := messages act @ ms\<rparr>"
    then obtain ms bufs where h: "length ms = Suc n" "length bufs = Suc (Suc n)" "bufs ! 0 = data"
      "bufs ! Suc n = rest" "\<forall>i<Suc n. dec (bufs ! i) = Inr (ms ! i, bufs ! Suc i)"
      "act' = act\<lparr>messages := messages act @ ms\<rparr>"
      by blast
    from h(1) obtain m ms' where ms: "ms = m # ms'" "length ms' = n"
      by (cases ms) auto
    from h(2) obtain b bufs' where bufs: "bufs = b # bufs'" "length bufs' = Suc n"
      by (cases bufs) auto
    from h(3) bufs have b: "b = data" by simp
    from h(5) have first: "dec data = Inr (m, bufs' ! 0)"
      using ms bufs b by (auto dest: spec [of _ 0])
    have later: "\<forall>i<n. dec (bufs' ! i) = Inr (ms' ! i, bufs' ! Suc i)"
    proof (intro allI impI)
      fix i assume "i < n"
      then have "Suc i < Suc n" by simp
      with h(5) have "dec (bufs ! Suc i) = Inr (ms ! Suc i, bufs ! Suc (Suc i))" by blast
      then show "dec (bufs' ! i) = Inr (ms' ! i, bufs' ! Suc i)"
        using ms bufs by simp
    qed
    have "from_data_loop dec n (act\<lparr>messages := messages act @ [m]\<rparr>) (bufs' ! 0) = Inr (act', rest)"
      unfolding Suc.IH
      using ms bufs h(4,6) later
      by (intro exI [of _ ms'] exI [of _ bufs']) simp
    with first show "from_data_loop dec (Suc n) act data = Inr (act', rest)"
      by simp
  qed
qed

lemma from_data_loop_short:
  assumes short: "\<And>d. length d < w \<Longrightarrow> dec d = Inl TruncatedInputError"
    and long: "\<And>d. w \<le> length d \<Longrightarrow> \<exists>m. dec d = Inr (m, drop w d)"
  shows "length data < n * w \<Longrightarrow> from_data_loop dec n act data = Inl TruncatedInputError"
proof (induction n arbitrary: act data)
  case 0
  then show ?case by simp
next
  case (Suc n)
  show ?case
  proof (cases "length data < w")
    case True
    then show ?thesis by (simp add: short)
  next
    case False
    then obtain m where m: "dec data = Inr (m, drop w data)"
      using long [of data] by auto
    from False Suc.prems have "length (drop w data) < n * w" by simp
    then show ?thesis using m by (simp add: Suc.IH)
  qed
qed

lemma from_data_loop_long:
  assumes long: "\<And>d. w \<le> length d \<Longrightarrow> \<exists>m. dec d = Inr (m, drop w d)"
  shows "n * w \<le> length data \<Longrightarrow>
     \<exists>ms. from_data_loop dec n act data =
            Inr (act\<lparr>messages := messages act @ ms\<rparr>, drop (n * w) data)
        \<and> length ms = n
        \<and> (\<forall>i<n. dec (drop (i * w) data) = Inr (ms ! i, drop (Suc i * w) data))"
proof (induction n arbitrary: act data)
  case 0
  then show ?case by simp
next
  case (Suc n)
  then have "w \<le> length data" by simp
  then obtain m where m: "dec data = Inr (m, drop w data)"
    using long [of data] by auto
  from Suc.prems have "n * w \<le> length (drop w data)" by simp
  from Suc.IH [OF this, of "act\<lparr>messages := messages act @ [m]\<rparr>"]
  obtain ms where ms:
    "from_data_loop dec n (act\<lparr>messages := messages act @ [m]\<rparr>) (drop w data) =
       Inr (act\<lparr>messages := messages act @ [m] @ ms\<rparr>, drop (n * w) (drop w data))"
    "length ms = n"
    "\<forall>i<n. dec (drop (i * w) (drop w data)) = Inr (ms ! i, drop (Suc i * w) (drop w data))"
    by auto
  have steps: "\<forall>i<Suc n. dec (drop (i * w) data) = Inr ((m # ms) ! i, drop (Suc i * w) data)"
  proof (intro allI impI)
    fix i assume i: "i < Suc n"
    show "dec (drop (i * w) data) = Inr ((m # ms) ! i, drop (Suc i * w) data)"
    proof (cases i)
      case 0
      then show ?thesis using m by simp
    next
      case (Suc j)
      with i have "j < n" by simp
      with ms(3) have "dec (drop (j * w) (drop w data)) = Inr (ms ! j, drop (Suc j * w) (drop w data))"
        by blast
      then show ?thesis using Suc by (simp add: add.commute)
    qed
  qed
  have "from_data_loop dec (Suc n) act data =
      Inr (act\<lparr>messages := messages act @ (m # ms)\<rparr>, drop (Suc n * w) data)"
    using m ms(1) by (simp add: add.commute)
  with ms(2) steps show ?case
    by (intro exI [of _ "m # ms"]) simp
qed

lemma BaseAction_from_data_well_formed:
  assumes "count shdr * required_width (message_class cls) \<le> length data"
  shows "\<exists>act. BaseAction_from_data cls data shdr =
            Inr (act, drop (count shdr * required_width (message_class cls)) data)
      \<and> action_cls act = cls \<and> header act = shdr \<and> length (messages act) = count shdr
      \<and> (\<forall>i<count shdr.
            message_from_data (message_class cls) (drop (i * required_width (message_class cls)) data) =
              Inr (messages act ! i, drop (Suc i * required_width (message_class cls)) data))"
proof -
  let ?w = "required_width (message_class cls)"
  let ?a = "BaseAction_init cls shdr"
  from from_data_loop_long [of ?w "message_from_data (message_class cls)" "count shdr" data ?a]
    assms
  obtain ms where ms:
    "from_data_loop (message_from_data (message_class cls)) (count shdr) ?a data =
       Inr (?a\<lparr>messages := messages ?a @ ms\<rparr>, drop (count shdr * ?w) data)"
    "length ms = count shdr"
    "\<forall>i<count shdr. message_from_data (message_class cls) (drop (i * ?w) data) =
        Inr (ms ! i, drop (Suc i * ?w) data)"
    using message_from_data_long by blast
  show ?thesis
    using ms
    by (intro exI [of _ "?a\<lparr>messages := messages ?a @ ms\<rparr>"])
       (simp add: BaseAction_from_data_def get_message_class_def BaseAction_init_def)
qed

lemma MessageState_is_nat_bytes:
  "MessageState_from_data data = Inr (m, rest) \<Longrightarrow>
     is_nat m \<longleftrightarrow> dotted_quad (drop 76 data) \<noteq> dotted_quad (drop 40 data)"
  by (auto simp: MessageState_from_data_eq is_nat_def split: if_splits)

section \<open>The table of actions\<close>

lemma actions_nth:
  "actions ! 0 = Some ActionClearStates"
  "actions ! 1 = Some ActionInsertState"
  "actions ! 2 = Some ActionInsertAck"
  "actions ! 3 = Some ActionUpdateState"
  "actions ! 4 = Some ActionUpdateCompressedState"
  "actions ! 5 = Some ActionUpdateRequestState"
  "actions ! 6 = Some ActionDeleteState"
  "actions ! 7 = Some ActionDeleteCompressedState"
  "actions ! 8 = None" "actions ! 9 = None" "actions ! 10 = None" "actions ! 11 = None"
  "actions ! 12 = None" "actions ! 13 = None" "actions ! 14 = None"
  "length actions = 15"
  "actions ! Suc 0 = Some ActionInsertState"
  by (simp_all add: actions_def)

lemma actions_unmapped: "8 \<le> k \<Longrightarrow> k < 15 \<Longrightarrow> actions ! k = None"
proof -
  assume "8 \<le> k" "k < 15"
  then have "k = 8 \<or> k = 9 \<or> k = 10 \<or> k = 11 \<or> k = 12 \<or> k = 13 \<or> k = 14" by arith
  then show ?thesis using actions_nth by auto
qed

lemma build_from_header_mapped:
  assumes "0 \<le> action_id shdr" "action_id shdr < 15" "actions ! nat (action_id shdr) = Some cls"
  shows "build_from_header shdr data =
     bind_err
       (from_data_loop (message_from_data (message_class cls)) (count shdr)
          \<lparr>action_cls = cls, header = shdr, messages = []\<rparr> data)
       (\<lambda>(act, rest). Inr (Some act, rest))"
  using assms
  by (simp add: build_from_header_def actions_nth(16) BaseAction_from_data_def
      get_message_class_def BaseAction_init_def)

section \<open>Decimal text\<close>

lemma decimal_value_snoc:
  "decimal_value (s @ [c]) = 10 * decimal_value s + py_digit_val c"
  by (simp add: decimal_value_def)

lemma py_digit_val_digit_char: "d < 10 \<Longrightarrow> py_digit_val (digit_char d) = d"
  by (simp add: py_digit_val_def digit_char_def)

lemma py_isdigit_digit_char: "d < 10 \<Longrightarrow> py_isdigit (digit_char d)"
  by (simp add: py_isdigit_def digit_char_def)

lemma decimal_value_str_nat: "decimal_value (str_nat n) = n"
proof (induction n rule: str_nat.induct)
  case (1 n)
  show ?case
  proof (cases "n < 10")
    case True
    then show ?thesis
      by (simp add: str_nat.simps [of n] decimal_value_def py_digit_val_digit_char)
  next
    case False
    then have "decimal_value (str_nat n) = 10 * (n div 10) + n mod 10"
      using "1.IH" by (simp add: str_nat.simps [of n] decimal_value_snoc py_digit_val_digit_char)
    then show ?thesis by simp
  qed
qed

lemma str_nat_digits: "c \<in> set (str_nat n) \<Longrightarrow> py_isdigit c"
proof (induction n rule: str_nat.induct)
  case (1 n)
  show ?case
  proof (cases "n < 10")
    case True
    with "1.prems" show ?thesis
      by (simp add: str_nat.simps [of n] py_isdigit_digit_char)
  next
    case False
    with "1.prems" "1.IH" show ?thesis
      by (auto simp: str_nat.simps [of n] py_isdigit_digit_char)
  qed
qed

section \<open>The claims\<close>

text \<open>
  C1.  For every action class, sub-header and buffer, \<open>BaseAction.from_data\<close> returns
  an action and a remainder exactly when the decoder of the class's message class,
  called \<open>count\<close> times with the remainder of each call as the buffer of the
  next, succeeds every time: the first buffer is the input, the action holds the
  \<open>count\<close> decoded messages in the order of the input, and the remainder is what
  the last call left.  With \<open>count = 0\<close> the action has no message and the remainder
  is the input.  When the buffer holds \<open>count\<close> messages of the class one after the
  other, the action is returned: its \<open>i\<close>-th message is the one decoded at the
  \<open>i\<close>-th place, and the remainder is what follows the last message.
\<close>

theorem BaseAction_from_data_threads:
  "(BaseAction_from_data cls data shdr = Inr (act, rest) \<longleftrightarrow>
      action_cls act = cls \<and> header act = shdr \<and> length (messages act) = count shdr \<and>
      (\<exists>bufs. length bufs = Suc (count shdr) \<and> bufs ! 0 = data \<and> bufs ! count shdr = rest \<and>
         (\<forall>i<count shdr.
            message_from_data (message_class cls) (bufs ! i) =
              Inr (messages act ! i, bufs ! Suc i)))) \<and>
   (count shdr = 0 \<longrightarrow>
      BaseAction_from_data cls data shdr =
        Inr (\<lparr>action_cls = cls, header = shdr, messages = []\<rparr>, data)) \<and>
   (count shdr * required_width (message_class cls) \<le> length data \<longrightarrow>
      (\<exists>act'. BaseAction_from_data cls data shdr =
                 Inr (act', drop (count shdr * required_width (message_class cls)) data)
         \<and> action_cls act' = cls \<and> header act' = shdr
         \<and> length (messages act') = count shdr
         \<and> (\<forall>i<count shdr.
               message_from_data (message_class cls)
                   (drop (i * required_width (message_class cls)) data) =
                 Inr (messages act' ! i,
                      drop (Suc i * required_width (message_class cls)) data))))"
proof (intro conjI impI)
  show "BaseAction_from_data cls data shdr = Inr (act, rest) \<longleftrightarrow>
      action_cls act = cls \<and> header act = shdr \<and> length (messages act) = count shdr \<and>
      (\<exists>bufs. length bufs = Suc (count shdr) \<and> bufs ! 0 = data \<and> bufs ! count shdr = rest \<and>
         (\<forall>i<count shdr.
            message_from_data (message_class cls) (bufs ! i) =
              Inr (messages act ! i, bufs ! Suc i)))"
    (is "?L \<longleftrightarrow> ?R")
  proof
    assume ?L
    then obtain ms bufs where h: "length ms = count shdr" "length bufs = Suc (count shdr)"
      "bufs ! 0 = data" "bufs ! count shdr = rest"
      "\<forall>i<count shdr. message_from_data (message_class cls) (bufs ! i) = Inr (ms ! i, bufs ! Suc i)"
      "act = (BaseAction_init cls shdr)\<lparr>messages := messages (BaseAction_init cls shdr) @ ms\<rparr>"
      unfolding BaseAction_from_data_def get_message_class_def from_data_loop_iff by blast
    from h(6) have a: "action_cls act = cls" "header act = shdr" "messages act = ms"
      by (simp_all add: BaseAction_init_def)
    have "\<exists>bufs. length bufs = Suc (count shdr) \<and> bufs ! 0 = data \<and> bufs ! count shdr = rest \<and>
         (\<forall>i<count shdr.
            message_from_data (message_class cls) (bufs ! i) =
              Inr (messages act ! i, bufs ! Suc i))"
      using h(2-5) a(3) by (intro exI [of _ bufs]) simp
    with a h(1) show ?R by simp
  next
    assume r: ?R
    then obtain bufs where h: "length bufs = Suc (count shdr)"
      "bufs ! 0 = data" "bufs ! count shdr = rest"
      "\<forall>i<count shdr. message_from_data (message_class cls) (bufs ! i) =
          Inr (messages act ! i, bufs ! Suc i)"
      by blast
    from r have e: "act = (BaseAction_init cls shdr)\<lparr>messages := messages (BaseAction_init cls shdr) @ messages act\<rparr>"
      by (simp add: BaseAction_init_def)
    from r have l: "length (messages act) = count shdr" by simp
    show ?L
      unfolding BaseAction_from_data_def get_message_class_def from_data_loop_iff
      using h l e by (intro exI [of _ "messages act"] exI [of _ bufs]) simp
  qed
next
  assume "count shdr = 0"
  then show "BaseAction_from_data cls data shdr =
      Inr (\<lparr>action_cls = cls, header = shdr, messages = []\<rparr>, data)"
    by (simp add: BaseAction_from_data_def BaseAction_init_def)
next
  assume "count shdr * required_width (message_class cls) \<le> length data"
  then show "\<exists>act'. BaseAction_from_data cls data shdr =
                 Inr (act', drop (count shdr * required_width (message_class cls)) data)
         \<and> action_cls act' = cls \<and> header act' = shdr
         \<and> length (messages act') = count shdr
         \<and> (\<forall>i<count shdr.
               message_from_data (message_class cls)
                   (drop (i * required_width (message_class cls)) data) =
                 Inr (messages act' ! i,
                      drop (Suc i * required_width (message_class cls)) data))"
    by (rule BaseAction_from_data_well_formed)
qed

text \<open>Two messages of twelve bytes and one byte more; and an action with no message.\<close>

theorem BaseAction_from_data_threads_witness:
  "BaseAction_from_data ActionDeleteCompressedState
      [0,0,0,0,0,0,0,1, 0,0,0,2, 0,0,0,0,0,0,0,3, 0,0,0,4, 9] \<lparr>action_id = 7, count = 2\<rparr> =
     Inr (\<lparr>action_cls = ActionDeleteCompressedState,
           header = \<lparr>action_id = 7, count = 2\<rparr>,
           messages = [DeleteCompressed_message \<lparr>delc_id = 1, delc_creator = 2\<rparr>,
                       DeleteCompressed_message \<lparr>delc_id = 3, delc_creator = 4\<rparr>]\<rparr>, [9])
   \<and> BaseAction_from_data ActionClearStates [7, 7] \<lparr>action_id = 0, count = 0\<rparr> =
     Inr (\<lparr>action_cls = ActionClearStates, header = \<lparr>action_id = 0, count = 0\<rparr>,
           messages = []\<rparr>, [7, 7])
   \<and> (\<exists>act. BaseAction_from_data ActionClearStates (replicate 41 0) \<lparr>action_id = 0, count = 2\<rparr> =
          Inr (act, [0]) \<and> length (messages act) = 2)"
proof -
  let ?d = "[0,0,0,0,0,0,0,1, 0,0,0,2, 0,0,0,0,0,0,0,3, 0,0,0,4, 9] :: bytes"
  let ?bufs = "[?d, drop 12 ?d, drop 24 ?d]"
  let ?h = "\<lparr>action_id = 7, count = 2\<rparr>"
  let ?act = "\<lparr>action_cls = ActionDeleteCompressedState, header = ?h,
           messages = [DeleteCompressed_message \<lparr>delc_id = 1, delc_creator = 2\<rparr>,
                       DeleteCompressed_message \<lparr>delc_id = 3, delc_creator = 4\<rparr>]\<rparr>"
  have d0: "message_from_data MessageDeleteCompressed ?d =
      Inr (DeleteCompressed_message \<lparr>delc_id = 1, delc_creator = 2\<rparr>, drop 12 ?d)"
    by code_simp
  have d1: "message_from_data MessageDeleteCompressed (drop 12 ?d) =
      Inr (DeleteCompressed_message \<lparr>delc_id = 3, delc_creator = 4\<rparr>, drop 24 ?d)"
    by code_simp
  have steps: "\<forall>i<count ?h. message_from_data (message_class ActionDeleteCompressedState) (?bufs ! i) =
      Inr (messages ?act ! i, ?bufs ! Suc i)"
    using d0 d1 by (simp add: less_Suc_eq numeral_2_eq_2)
  have chain: "\<exists>bufs. length bufs = Suc (count ?h) \<and> bufs ! 0 = ?d \<and> bufs ! count ?h = [9] \<and>
      (\<forall>i<count ?h. message_from_data (message_class ActionDeleteCompressedState) (bufs ! i) =
          Inr (messages ?act ! i, bufs ! Suc i))"
    using steps by (intro exI [of _ ?bufs]) simp
  have one: "BaseAction_from_data ActionDeleteCompressedState ?d ?h = Inr (?act, [9])"
    using BaseAction_from_data_threads [of ActionDeleteCompressedState ?d ?h ?act "[9]"] chain
    by simp
  have two: "BaseAction_from_data ActionClearStates [7, 7] \<lparr>action_id = 0, count = 0\<rparr> =
     Inr (\<lparr>action_cls = ActionClearStates, header = \<lparr>action_id = 0, count = 0\<rparr>,
           messages = []\<rparr>, [7, 7])"
    using BaseAction_from_data_threads [of ActionClearStates "[7, 7]" "\<lparr>action_id = 0, count = 0\<rparr>"]
    by simp
  let ?g = "\<lparr>action_id = 0, count = 2\<rparr>"
  have "count ?g * required_width (message_class ActionClearStates) \<le> length (replicate 41 (0 :: byte))"
    by simp
  then have "\<exists>act. BaseAction_from_data ActionClearStates (replicate 41 0) ?g =
        Inr (act, drop (count ?g * required_width (message_class ActionClearStates)) (replicate 41 0))
      \<and> length (messages act) = count ?g"
    using BaseAction_from_data_threads [of ActionClearStates "replicate 41 0" ?g] by blast
  then have three: "\<exists>act. BaseAction_from_data ActionClearStates (replicate 41 0) ?g =
        Inr (act, [0]) \<and> length (messages act) = 2"
    by simp
  from one two three show ?thesis by blast
qed

text \<open>
  C2.  The table of \<open>build_from_header\<close>: the action ids 0 to 7 are bound, in this
  order, to the classes for clearing, inserting, acknowledging an insertion, updating,
  the compressed update, the request of an update, deleting and the compressed
  deletion, each of which decodes \<open>count\<close> messages with the decoder of its own
  message class; the ids 8 to 14 have no class in the table, which has 15 entries.
\<close>

theorem build_from_header_table:
  "(action_id shdr = 0 \<longrightarrow>
      build_from_header shdr data =
        bind_err
          (from_data_loop (\<lambda>d. tagged Clear_message (MessageClear_from_data d)) (count shdr)
             \<lparr>action_cls = ActionClearStates, header = shdr, messages = []\<rparr> data)
          (\<lambda>(act, rest). Inr (Some act, rest))) \<and>
   (action_id shdr = 1 \<longrightarrow>
      build_from_header shdr data =
        bind_err
          (from_data_loop (\<lambda>d. tagged State_message (MessageState_from_data d)) (count shdr)
             \<lparr>action_cls = ActionInsertState, header = shdr, messages = []\<rparr> data)
          (\<lambda>(act, rest). Inr (Some act, rest))) \<and>
   (action_id shdr = 2 \<longrightarrow>
      build_from_header shdr data =
        bind_err
          (from_data_loop (\<lambda>d. tagged InsertAck_message (MessageInsertAck_from_data d)) (count shdr)
             \<lparr>action_cls = ActionInsertAck, header = shdr, messages = []\<rparr> data)
          (\<lambda>(act, rest). Inr (Some act, rest))) \<and>
   (action_id shdr = 3 \<longrightarrow>
      build_from_header shdr data =
        bind_err
          (from_data_loop (\<lambda>d. tagged State_message (MessageState_from_data d)) (count shdr)
             \<lparr>action_cls = ActionUpdateState, header = shdr, messages = []\<rparr> data)
          (\<lambda>(act, rest). Inr (Some act, rest))) \<and>
   (action_id shdr = 4 \<longrightarrow>
      build_from_header shdr data =
        bind_err
          (from_data_loop
             (\<lambda>d. tagged UpdateCompressed_message (MessageUpdateCompressed_from_data d))
             (count shdr)
             \<lparr>action_cls = ActionUpdateCompressedState, header = shdr, messages = []\<rparr> data)
          (\<lambda>(act, rest). Inr (Some act, rest))) \<and>
   (action_id shdr = 5 \<longrightarrow>
      build_from_header shdr data =
        bind_err
          (from_data_loop (\<lambda>d. tagged UpdateReq_message (MessageUpdateReq_from_data d)) (count shdr)
             \<lparr>action_cls = ActionUpdateRequestState, header = shdr, messages = []\<rparr> data)
          (\<lambda>(act, rest). Inr (Some act, rest))) \<and>
   (action_id shdr = 6 \<longrightarrow>
      build_from_header shdr data =
        bind_err
          (from_data_loop (\<lambda>d. tagged State_message (MessageState_from_data d)) (count shdr)
             \<lparr>action_cls = ActionDeleteState, header = shdr, messages = []\<rparr> data)
          (\<lambda>(act, rest). Inr (Some act, rest))) \<and>
   (action_id shdr = 7 \<longrightarrow>
      build_from_header shdr data =
        bind_err
          (from_data_loop
             (\<lambda>d. tagged DeleteCompressed_message (MessageDeleteCompressed_from_data d))
             (count shdr)
             \<lparr>action_cls = ActionDeleteCompressedState, header = shdr, messages = []\<rparr> data)
          (\<lambda>(act, rest). Inr (Some act, rest))) \<and>
   (8 \<le> action_id shdr \<and> action_id shdr \<le> 14 \<longrightarrow>
      actions ! nat (action_id shdr) = None) \<and>
   length actions = 15"
proof -
  have dec:
    "message_from_data MessageClear = (\<lambda>d. tagged Clear_message (MessageClear_from_data d))"
    "message_from_data MessageState = (\<lambda>d. tagged State_message (MessageState_from_data d))"
    "message_from_data MessageInsertAck =
       (\<lambda>d. tagged InsertAck_message (MessageInsertAck_from_data d))"
    "message_from_data MessageUpdateCompressed =
       (\<lambda>d. tagged UpdateCompressed_message (MessageUpdateCompressed_from_data d))"
    "message_from_data MessageUpdateReq =
       (\<lambda>d. tagged UpdateReq_message (MessageUpdateReq_from_data d))"
    "message_from_data MessageDeleteCompressed =
       (\<lambda>d. tagged DeleteCompressed_message (MessageDeleteCompressed_from_data d))"
    by (rule ext, simp)+
  have none: "8 \<le> action_id shdr \<and> action_id shdr \<le> 14 \<longrightarrow> actions ! nat (action_id shdr) = None"
    by (auto intro!: actions_unmapped)
  have "action_id shdr = 0 \<longrightarrow>
      build_from_header shdr data =
        bind_err
          (from_data_loop (\<lambda>d. tagged Clear_message (MessageClear_from_data d)) (count shdr)
             \<lparr>action_cls = ActionClearStates, header = shdr, messages = []\<rparr> data)
          (\<lambda>(act, rest). Inr (Some act, rest))"
    using build_from_header_mapped [of shdr ActionClearStates data]
    by (simp add: actions_nth dec)
  moreover have "action_id shdr = 1 \<longrightarrow>
      build_from_header shdr data =
        bind_err
          (from_data_loop (\<lambda>d. tagged State_message (MessageState_from_data d)) (count shdr)
             \<lparr>action_cls = ActionInsertState, header = shdr, messages = []\<rparr> data)
          (\<lambda>(act, rest). Inr (Some act, rest))"
    using build_from_header_mapped [of shdr ActionInsertState data]
    by (simp add: actions_nth dec)
  moreover have "action_id shdr = 2 \<longrightarrow>
      build_from_header shdr data =
        bind_err
          (from_data_loop (\<lambda>d. tagged InsertAck_message (MessageInsertAck_from_data d)) (count shdr)
             \<lparr>action_cls = ActionInsertAck, header = shdr, messages = []\<rparr> data)
          (\<lambda>(act, rest). Inr (Some act, rest))"
    using build_from_header_mapped [of shdr ActionInsertAck data]
    by (simp add: actions_nth dec)
  moreover have "action_id shdr = 3 \<longrightarrow>
      build_from_header shdr data =
        bind_err
          (from_data_loop (\<lambda>d. tagged State_message (MessageState_from_data d)) (count shdr)
             \<lparr>action_cls = ActionUpdateState, header = shdr, messages = []\<rparr> data)
          (\<lambda>(act, rest). Inr (Some act, rest))"
    using build_from_header_mapped [of shdr ActionUpdateState data]
    by (simp add: actions_nth dec)
  moreover have "action_id shdr = 4 \<longrightarrow>
      build_from_header shdr data =
        bind_err
          (from_data_loop
             (\<lambda>d. tagged UpdateCompressed_message (MessageUpdateCompressed_from_data d))
             (count shdr)
             \<lparr>action_cls = ActionUpdateCompressedState, header = shdr, messages = []\<rparr> data)
          (\<lambda>(act, rest). Inr (Some act, rest))"
    using build_from_header_mapped [of shdr ActionUpdateCompressedState data]
    by (simp add: actions_nth dec)
  moreover have "action_id shdr = 5 \<longrightarrow>
      build_from_header shdr data =
        bind_err
          (from_data_loop (\<lambda>d. tagged UpdateReq_message (MessageUpdateReq_from_data d)) (count shdr)
             \<lparr>action_cls = ActionUpdateRequestState, header = shdr, messages = []\<rparr> data)
          (\<lambda>(act, rest). Inr (Some act, rest))"
    using build_from_header_mapped [of shdr ActionUpdateRequestState data]
    by (simp add: actions_nth dec)
  moreover have "action_id shdr = 6 \<longrightarrow>
      build_from_header shdr data =
        bind_err
          (from_data_loop (\<lambda>d. tagged State_message (MessageState_from_data d)) (count shdr)
             \<lparr>action_cls = ActionDeleteState, header = shdr, messages = []\<rparr> data)
          (\<lambda>(act, rest). Inr (Some act, rest))"
    using build_from_header_mapped [of shdr ActionDeleteState data]
    by (simp add: actions_nth dec)
  moreover have "action_id shdr = 7 \<longrightarrow>
      build_from_header shdr data =
        bind_err
          (from_data_loop
             (\<lambda>d. tagged DeleteCompressed_message (MessageDeleteCompressed_from_data d))
             (count shdr)
             \<lparr>action_cls = ActionDeleteCompressedState, header = shdr, messages = []\<rparr> data)
          (\<lambda>(act, rest). Inr (Some act, rest))"
    using build_from_header_mapped [of shdr ActionDeleteCompressedState data]
    by (simp add: actions_nth dec)
  ultimately show ?thesis
    using none actions_nth(16) by blast
qed

text \<open>
  A clear action with one message of twenty bytes; the classes of the ids 1 to 7; and
  the entry of id 9.
\<close>

theorem build_from_header_table_witness:
  "build_from_header \<lparr>action_id = 0, count = 1\<rparr> (replicate 19 0 @ [5, 7]) =
     Inr (Some \<lparr>action_cls = ActionClearStates, header = \<lparr>action_id = 0, count = 1\<rparr>,
                messages = [Clear_message \<lparr>clr_interface = replicate 16 0, clr_creator = 5\<rparr>]\<rparr>,
          [7])
   \<and> map (\<lambda>k. map_sum id (\<lambda>(a, r). (map_option action_cls a, r))
               (build_from_header \<lparr>action_id = k, count = 0\<rparr> [3]))
        [1, 2, 3, 4, 5, 6, 7] =
       [Inr (Some ActionInsertState, [3]), Inr (Some ActionInsertAck, [3]),
        Inr (Some ActionUpdateState, [3]), Inr (Some ActionUpdateCompressedState, [3]),
        Inr (Some ActionUpdateRequestState, [3]), Inr (Some ActionDeleteState, [3]),
        Inr (Some ActionDeleteCompressedState, [3])]
   \<and> actions ! nat (action_id \<lparr>action_id = 9, count = 1\<rparr>) = None"
proof -
  let ?h = "\<lparr>action_id = 0, count = 1\<rparr>"
  let ?d = "replicate 19 0 @ [5, 7] :: bytes"
  have run: "bind_err
          (from_data_loop (\<lambda>d. tagged Clear_message (MessageClear_from_data d)) (count ?h)
             \<lparr>action_cls = ActionClearStates, header = ?h, messages = []\<rparr> ?d)
          (\<lambda>(act, rest). Inr (Some act, rest)) =
     Inr (Some \<lparr>action_cls = ActionClearStates, header = ?h,
                messages = [Clear_message \<lparr>clr_interface = replicate 16 0, clr_creator = 5\<rparr>]\<rparr>,
          [7])"
    by code_simp
  have id0: "action_id ?h = 0" by simp
  have a: "build_from_header ?h ?d =
     Inr (Some \<lparr>action_cls = ActionClearStates, header = ?h,
                messages = [Clear_message \<lparr>clr_interface = replicate 16 0, clr_creator = 5\<rparr>]\<rparr>,
          [7])"
    using build_from_header_table [of ?h ?d] id0 run by presburger
  have k: "map_sum id (\<lambda>(a, r). (map_option action_cls a, r))
        (build_from_header \<lparr>action_id = 1, count = 0\<rparr> [3]) = Inr (Some ActionInsertState, [3])"
      "map_sum id (\<lambda>(a, r). (map_option action_cls a, r))
        (build_from_header \<lparr>action_id = 2, count = 0\<rparr> [3]) = Inr (Some ActionInsertAck, [3])"
      "map_sum id (\<lambda>(a, r). (map_option action_cls a, r))
        (build_from_header \<lparr>action_id = 3, count = 0\<rparr> [3]) = Inr (Some ActionUpdateState, [3])"
      "map_sum id (\<lambda>(a, r). (map_option action_cls a, r))
        (build_from_header \<lparr>action_id = 4, count = 0\<rparr> [3])
         = Inr (Some ActionUpdateCompressedState, [3])"
      "map_sum id (\<lambda>(a, r). (map_option action_cls a, r))
        (build_from_header \<lparr>action_id = 5, count = 0\<rparr> [3])
         = Inr (Some ActionUpdateRequestState, [3])"
      "map_sum id (\<lambda>(a, r). (map_option action_cls a, r))
        (build_from_header \<lparr>action_id = 6, count = 0\<rparr> [3]) = Inr (Some ActionDeleteState, [3])"
      "map_sum id (\<lambda>(a, r). (map_option action_cls a, r))
        (build_from_header \<lparr>action_id = 7, count = 0\<rparr> [3])
         = Inr (Some ActionDeleteCompressedState, [3])"
    using build_from_header_table [of "\<lparr>action_id = 1, count = 0\<rparr>" "[3]"]
      build_from_header_table [of "\<lparr>action_id = 2, count = 0\<rparr>" "[3]"]
      build_from_header_table [of "\<lparr>action_id = 3, count = 0\<rparr>" "[3]"]
      build_from_header_table [of "\<lparr>action_id = 4, count = 0\<rparr>" "[3]"]
      build_from_header_table [of "\<lparr>action_id = 5, count = 0\<rparr>" "[3]"]
      build_from_header_table [of "\<lparr>action_id = 6, count = 0\<rparr>" "[3]"]
      build_from_header_table [of "\<lparr>action_id = 7, count = 0\<rparr>" "[3]"]
    by simp_all
  have "8 \<le> action_id \<lparr>action_id = 9, count = 1\<rparr> \<and> action_id \<lparr>action_id = 9, count = 1\<rparr> \<le> 14"
    by simp
  then have b: "actions ! nat (action_id \<lparr>action_id = 9, count = 1\<rparr>) = None"
    using build_from_header_table [of "\<lparr>action_id = 9, count = 1\<rparr>" "[]"] by blast
  from a k b show ?thesis by simp
qed

text \<open>
  C3.  For a sub-header whose action id has no class in the table (the ids from 8 on,
  and the negative ones) and for every buffer, \<open>build_from_header\<close> returns
  \<open>None\<close> with an empty remainder: nothing of the buffer is parsed, and nothing
  of it is returned.
\<close>

theorem build_from_header_unmapped:
  "action_id shdr < 0 \<or> 8 \<le> action_id shdr \<Longrightarrow> build_from_header shdr data = Inr (None, [])"
proof -
  assume "action_id shdr < 0 \<or> 8 \<le> action_id shdr"
  then consider "action_id shdr < 0" | "15 \<le> action_id shdr"
    | "8 \<le> action_id shdr" "action_id shdr < 15"
    by linarith
  then show ?thesis
  proof cases
    case 1
    then show ?thesis by (simp add: build_from_header_def)
  next
    case 2
    then show ?thesis by (simp add: build_from_header_def actions_nth(16))
  next
    case 3
    then have "actions ! nat (action_id shdr) = None"
      by (intro actions_unmapped) auto
    then show ?thesis by (simp add: build_from_header_def)
  qed
qed

text \<open>
  The ids 8 and 14, an id beyond the table and a negative id.
\<close>

theorem build_from_header_unmapped_witness:
  "build_from_header \<lparr>action_id = 8, count = 3\<rparr> [1, 2, 3] = Inr (None, [])
   \<and> build_from_header \<lparr>action_id = 14, count = 0\<rparr> [1, 2, 3] = Inr (None, [])
   \<and> build_from_header \<lparr>action_id = 200, count = 1\<rparr> (replicate 300 7) = Inr (None, [])
   \<and> build_from_header \<lparr>action_id = - 1, count = 1\<rparr> [] = Inr (None, [])"
  using build_from_header_unmapped [of "\<lparr>action_id = 8, count = 3\<rparr>" "[1, 2, 3]"]
    build_from_header_unmapped [of "\<lparr>action_id = 14, count = 0\<rparr>" "[1, 2, 3]"]
    build_from_header_unmapped [of "\<lparr>action_id = 200, count = 1\<rparr>" "replicate 300 7"]
    build_from_header_unmapped [of "\<lparr>action_id = - 1, count = 1\<rparr>" "[]"]
  by simp

text \<open>
  C4.  The size of each message class is the size of its format.  Decoding a buffer
  shorter than this size fails with \<open>TruncatedInputError\<close>, with no message and
  no remainder.  If any of the \<open>count\<close> iterations of an action finds fewer
  bytes than one message needs, the decoding of the action fails with
  \<open>TruncatedInputError\<close> and returns no action; otherwise it returns an action
  with all \<open>count\<close> messages.
\<close>

theorem truncated_input_fails:
  "get_cstruct_size (get_unpack_format mc) = Inr (required_width mc) \<and>
   (length data < required_width mc \<longrightarrow>
      message_from_data mc data = Inl TruncatedInputError) \<and>
   (k < count shdr \<and> length data < Suc k * required_width (message_class cls) \<longrightarrow>
      BaseAction_from_data cls data shdr = Inl TruncatedInputError) \<and>
   (count shdr * required_width (message_class cls) \<le> length data \<longrightarrow>
      (\<exists>act. BaseAction_from_data cls data shdr =
                Inr (act, drop (count shdr * required_width (message_class cls)) data)
           \<and> length (messages act) = count shdr))"
proof (intro conjI impI)
  show "get_cstruct_size (get_unpack_format mc) = Inr (required_width mc)"
    by (rule get_cstruct_size_message)
  show "message_from_data mc data = Inl TruncatedInputError" if "length data < required_width mc"
    using that by (rule message_from_data_short)
  show "BaseAction_from_data cls data shdr = Inl TruncatedInputError"
    if h: "k < count shdr \<and> length data < Suc k * required_width (message_class cls)"
  proof -
    from h have "Suc k \<le> count shdr" by simp
    then have "Suc k * required_width (message_class cls)
        \<le> count shdr * required_width (message_class cls)"
      by (rule mult_le_mono1)
    with h have "length data < count shdr * required_width (message_class cls)" by simp
    then show ?thesis
      unfolding BaseAction_from_data_def get_message_class_def
      by (rule from_data_loop_short [rotated 2])
         (simp_all add: message_from_data_short message_from_data_long)
  qed
  show "\<exists>act. BaseAction_from_data cls data shdr =
                Inr (act, drop (count shdr * required_width (message_class cls)) data)
           \<and> length (messages act) = count shdr"
    if "count shdr * required_width (message_class cls) \<le> length data"
    using BaseAction_from_data_well_formed [OF that] by blast
qed

text \<open>
  A clear message of 19 bytes; two compressed deletions in 23 bytes, and in 24.
\<close>

theorem truncated_input_fails_witness:
  "message_from_data MessageClear (replicate 19 0) = Inl TruncatedInputError
   \<and> BaseAction_from_data ActionDeleteCompressedState (replicate 23 0) \<lparr>action_id = 7, count = 2\<rparr>
       = Inl TruncatedInputError
   \<and> (\<exists>act. BaseAction_from_data ActionDeleteCompressedState (replicate 24 0)
               \<lparr>action_id = 7, count = 2\<rparr> = Inr (act, []) \<and> length (messages act) = 2)"
proof -
  let ?h = "\<lparr>action_id = 7, count = 2\<rparr>"
  have a: "message_from_data MessageClear (replicate 19 0) = Inl TruncatedInputError"
    using truncated_input_fails [of MessageClear "replicate 19 0"] by simp
  have "1 < count ?h \<and> length (replicate 23 (0 :: byte))
      < Suc 1 * required_width (message_class ActionDeleteCompressedState)"
    by simp
  then have b: "BaseAction_from_data ActionDeleteCompressedState (replicate 23 0) ?h
      = Inl TruncatedInputError"
    using truncated_input_fails [of _ "replicate 23 0" 1 ?h ActionDeleteCompressedState]
    by blast
  have "count ?h * required_width (message_class ActionDeleteCompressedState)
      \<le> length (replicate 24 (0 :: byte))"
    by simp
  then have "\<exists>act. BaseAction_from_data ActionDeleteCompressedState (replicate 24 0) ?h =
        Inr (act, drop (count ?h * required_width (message_class ActionDeleteCompressedState))
                    (replicate 24 0))
      \<and> length (messages act) = count ?h"
    using truncated_input_fails [of _ "replicate 24 0" _ ?h ActionDeleteCompressedState]
    by blast
  then have c: "\<exists>act. BaseAction_from_data ActionDeleteCompressedState (replicate 24 0) ?h
      = Inr (act, []) \<and> length (messages act) = 2"
    by simp
  from a b c show ?thesis by blast
qed

text \<open>
  C5, as the specification states it, fails: the layout that \<open>MessageState\<close>
  declares is not the one of the specification's table, which gives \<open>rt_addr\<close>
  four bytes and ends with eight 1-byte fields, and the two do not even have the same
  size (242 bytes against 228).
\<close>

theorem state_layout_counterexample:
  "declared_layout MessageState_get_unpack_format
     \<noteq> Inr \<lparr>order = Big_endian, aligned = False, flds = spec_state_layout\<rparr>
   \<and> get_cstruct_size MessageState_get_unpack_format
     \<noteq> Inr (layout_size False 0 spec_state_layout)"
proof -
  have "length code_state_layout = 34" "length spec_state_layout = 29"
    by (simp_all add: code_state_layout_def spec_state_layout_def)
  then have "code_state_layout \<noteq> spec_state_layout" by auto
  moreover have "layout_size False 0 spec_state_layout = 228"
    by (simp add: spec_state_layout_def numeral_eq_Suc)
  moreover have "get_cstruct_size MessageState_get_unpack_format = Inr 242"
    using get_cstruct_size_classes(1) by simp
  ultimately show ?thesis
    by (simp add: declared_layout_MessageState)
qed

text \<open>
  C5, amended.  The format of \<open>MessageState\<close> is in network byte order, without
  padding, and consists, in this order, of an 8-byte id, a 16-byte interface name, two
  state keys of 36 bytes, two peer blocks of 32 bytes, an \<open>rt_addr\<close> of 16 bytes
  read as four 4-byte words, five 4-byte counters, four 4-byte packet counters, four
  4-byte byte counters, a 4-byte creator id and ten 1-byte fields: 242 bytes, the size
  of the class.  A successful decoding consumes exactly these 242 bytes, whatever the
  length of the buffer, and a buffer shorter than that is refused.
\<close>

theorem state_layout_amended:
  "declared_layout MessageState_get_unpack_format =
     Inr \<lparr>order = Big_endian, aligned = False, flds = code_state_layout\<rparr> \<and>
   get_cstruct_size MessageState_get_unpack_format = Inr (layout_size False 0 code_state_layout) \<and>
   layout_size False 0 code_state_layout = 242 \<and>
   (MessageState_from_data data = Inr (m, rest) \<longrightarrow>
      242 \<le> length data \<and> rest = drop 242 data \<and> length data - length rest = 242 \<and>
      st_id m = be_int (take 8 data) \<and>
      st_interface m = split_nul_first (take 16 (drop 8 data)) \<and>
      st_creator m = be_int (take 4 (drop 228 data))) \<and>
   (242 \<le> length data \<longrightarrow> (\<exists>m'. MessageState_from_data data = Inr (m', drop 242 data))) \<and>
   (length data < 242 \<longrightarrow> MessageState_from_data data = Inl TruncatedInputError)"
proof -
  have w: "layout_size False 0 code_state_layout = 242"
    by (simp add: code_state_layout_def numeral_eq_Suc)
  have s: "get_cstruct_size MessageState_get_unpack_format = Inr 242"
    using get_cstruct_size_classes(1) by simp
  have d: "MessageState_from_data data = Inr (m, rest) \<longrightarrow>
      242 \<le> length data \<and> rest = drop 242 data \<and> length data - length rest = 242 \<and>
      st_id m = be_int (take 8 data) \<and>
      st_interface m = split_nul_first (take 16 (drop 8 data)) \<and>
      st_creator m = be_int (take 4 (drop 228 data))"
    by (auto simp: MessageState_from_data_eq split: if_splits)
  have e: "242 \<le> length data \<longrightarrow> (\<exists>m'. MessageState_from_data data = Inr (m', drop 242 data))"
    by (simp add: MessageState_from_data_eq)
  have t: "length data < 242 \<longrightarrow> MessageState_from_data data = Inl TruncatedInputError"
    by (simp add: MessageState_from_data_eq)
  from declared_layout_MessageState w s d e t show ?thesis by simp
qed

text \<open>
  A message of 242 bytes followed by two more bytes, and a buffer of 241 bytes.
\<close>

theorem state_layout_amended_witness:
  "(\<exists>m. MessageState_from_data (replicate 242 1 @ [9, 9]) = Inr (m, [9, 9]))
   \<and> st_id (fst (projr (MessageState_from_data (replicate 242 1 @ [9, 9])))) = 72340172838076673
   \<and> MessageState_from_data (replicate 241 1) = Inl TruncatedInputError"
proof -
  let ?d = "replicate 242 1 @ [9, 9] :: bytes"
  have l: "242 \<le> length ?d" by simp
  then have "\<exists>m'. MessageState_from_data ?d = Inr (m', drop 242 ?d)"
    using state_layout_amended [of ?d] by blast
  then have a: "\<exists>m. MessageState_from_data ?d = Inr (m, [9, 9])" by simp
  then obtain m where m: "MessageState_from_data ?d = Inr (m, [9, 9])" by blast
  then have "st_id m = be_int (take 8 ?d)"
    using state_layout_amended [of ?d m "[9, 9]"] by blast
  moreover have "be_int (take 8 ?d) = 72340172838076673" by code_simp
  ultimately have b: "st_id (fst (projr (MessageState_from_data ?d))) = 72340172838076673"
    using m by simp
  have "length (replicate 241 (1 :: byte)) < 242" by simp
  then have c: "MessageState_from_data (replicate 241 1) = Inl TruncatedInputError"
    using state_layout_amended [of "replicate 241 1"] by blast
  from a b c show ?thesis by blast
qed

text \<open>
  C6.  \<open>is_nat\<close> holds exactly when the second address of the second key of the
  message differs from the second address of its first key, and fails when the two
  are equal.  In a decoded message these are the texts of the addresses at the bytes
  76 and 40 of the buffer.
\<close>

theorem is_nat_iff:
  "(is_nat m \<longleftrightarrow> snd (addr (snd (st_key m))) \<noteq> snd (addr (fst (st_key m)))) \<and>
   (snd (addr (snd (st_key m))) = snd (addr (fst (st_key m))) \<longrightarrow> \<not> is_nat m) \<and>
   (MessageState_from_data data = Inr (m, rest) \<longrightarrow>
      (is_nat m \<longleftrightarrow> dotted_quad (drop 76 data) \<noteq> dotted_quad (drop 40 data)))"
  using MessageState_is_nat_bytes [of data m rest] by (simp add: is_nat_def)

text \<open>
  Two decoded messages: one with the addresses 10.0.0.1 and 192.168.0.1 at these
  places, one with the same address at both.
\<close>

theorem is_nat_iff_witness:
  "is_nat (fst (projr (MessageState_from_data (replicate 40 0 @ [10, 0, 0, 1] @ replicate 32 0 @ [192, 168, 0, 1] @ replicate 162 0))))
   \<and> \<not> is_nat (fst (projr (MessageState_from_data (replicate 242 0))))"
proof -
  let ?d = "replicate 40 0 @ [10, 0, 0, 1] @ replicate 32 0 @ [192, 168, 0, 1] @ replicate 162 0 :: bytes"
  let ?m = "fst (projr (MessageState_from_data ?d))"
  let ?n = "fst (projr (MessageState_from_data (replicate 242 0)))"
  have m: "snd (addr (snd (st_key ?m))) = ''192.168.0.1''" "snd (addr (fst (st_key ?m))) = ''10.0.0.1''"
    by code_simp+
  have n: "snd (addr (snd (st_key ?n))) = ''0.0.0.0''" "snd (addr (fst (st_key ?n))) = ''0.0.0.0''"
    by code_simp+
  have a: "is_nat ?m" using is_nat_iff [of ?m] m by simp
  have b: "\<not> is_nat ?n" using is_nat_iff [of ?n] n by simp
  have r: "MessageState_from_data (replicate 242 0) = Inr (?n, snd (projr (MessageState_from_data (replicate 242 0))))"
    by (simp add: MessageState_from_data_eq)
  have q: "dotted_quad (drop 76 (replicate 242 (0 :: byte))) = dotted_quad (drop 40 (replicate 242 0))"
    by (simp add: dotted_quad_def)
  have c: "\<not> is_nat ?n"
    using is_nat_iff [of ?n "replicate 242 0" "snd (projr (MessageState_from_data (replicate 242 0)))"] r q
    by blast
  from a b c show ?thesis by blast
qed

text \<open>
  C7.  \<open>format_addr\<close> renders the first four bytes of an address field as
  decimal numbers separated by dots, whatever follows them: fields of sixteen bytes
  with the same first four bytes have the same text, and the bytes 10, 0, 0, 1 give
  \<open>10.0.0.1\<close>.
\<close>

theorem format_addr_first_four:
  "format_addr ([a, b, c, d] @ t) =
     Inr (str_nat (unat a) @ ''.'' @ str_nat (unat b) @ ''.'' @ str_nat (unat c) @ ''.''
            @ str_nat (unat d)) \<and>
   format_addr ([10, 0, 0, 1] @ t) = Inr ''10.0.0.1'' \<and>
   (length x = 16 \<and> length y = 16 \<and> take 4 x = take 4 y \<longrightarrow> format_addr x = format_addr y)"
proof -
  have "str_nat 10 = ''10''" "str_nat 0 = ''0''" "str_nat 1 = ''1''" by code_simp+
  then show ?thesis
    by (simp add: format_addr_def inet_ntoa_def)
qed

text \<open>
  The address 10.0.0.1 followed by twelve bytes 255, and by twelve bytes 0.
\<close>

theorem format_addr_first_four_witness:
  "format_addr ([10, 0, 0, 1] @ replicate 12 255) = format_addr ([10, 0, 0, 1] @ replicate 12 0)
   \<and> format_addr ([10, 0, 0, 1] @ replicate 12 255) = Inr ''10.0.0.1''"
proof -
  let ?x = "[10, 0, 0, 1] @ replicate 12 255 :: bytes"
  let ?y = "[10, 0, 0, 1] @ replicate 12 0 :: bytes"
  have e: "length ?x = 16 \<and> length ?y = 16 \<and> take 4 ?x = take 4 ?y" by simp
  have same: "format_addr ?x = format_addr ?y"
    using format_addr_first_four [of 10 0 0 1 "replicate 12 255" ?x ?y] e by blast
  have quad: "format_addr ?x = Inr ''10.0.0.1''"
    using format_addr_first_four [of 10 0 0 1 "replicate 12 255" ?x ?y] by blast
  from same quad show ?thesis by blast
qed

text \<open>
  C8.  \<open>get_protocol_name\<close> gives \<open>ICMP\<close> for protocol 1, \<open>TCP\<close> for 6,
  \<open>UDP\<close> for 17 and \<open>VRRP\<close> for 112; for every other protocol it gives the
  decimal numeral of the number, made of digits only, so \<open>250\<close> for 250.
\<close>

theorem get_protocol_name_mapping:
  "(st_protocol m = 1 \<longrightarrow> get_protocol_name m = ''ICMP'') \<and>
   (st_protocol m = 6 \<longrightarrow> get_protocol_name m = ''TCP'') \<and>
   (st_protocol m = 17 \<longrightarrow> get_protocol_name m = ''UDP'') \<and>
   (st_protocol m = 112 \<longrightarrow> get_protocol_name m = ''VRRP'') \<and>
   (st_protocol m = 250 \<longrightarrow> get_protocol_name m = ''250'') \<and>
   (st_protocol m \<notin> {1, 6, 17, 112} \<and> 0 \<le> st_protocol m \<longrightarrow>
      get_protocol_name m = str_nat (nat (st_protocol m)) \<and>
      decimal_value (get_protocol_name m) = nat (st_protocol m) \<and>
      (\<forall>c \<in> set (get_protocol_name m). py_isdigit c))"
proof -
  have "str_nat 250 = ''250''" by code_simp
  then show ?thesis
    by (auto simp: get_protocol_name_def py_str_def decimal_value_str_nat str_nat_digits)
qed

text \<open>
  Decoded messages whose protocol byte is 1, 6, 17, 112, 250 and 47.
\<close>

theorem get_protocol_name_mapping_witness:
  "map (\<lambda>p. get_protocol_name (fst (projr (MessageState_from_data (replicate 233 0 @ [p] @ replicate 8 0)))))
      [1, 6, 17, 112, 250] = [''ICMP'', ''TCP'', ''UDP'', ''VRRP'', ''250'']
   \<and> decimal_value (get_protocol_name (fst (projr (MessageState_from_data (replicate 233 0 @ [47] @ replicate 8 0))))) = 47"
proof -
  let ?m = "\<lambda>p. fst (projr (MessageState_from_data (replicate 233 0 @ [p] @ replicate 8 0)))"
  have p: "st_protocol (?m 250) = 250" "st_protocol (?m 6) = 6" "st_protocol (?m 47) = 47"
    "st_protocol (?m 1) = 1" "st_protocol (?m 17) = 17" "st_protocol (?m 112) = 112"
    by code_simp+
  have a: "get_protocol_name (?m 250) = ''250''"
    using get_protocol_name_mapping [of "?m 250"] p(1) by blast
  have b: "get_protocol_name (?m 6) = ''TCP''"
    using get_protocol_name_mapping [of "?m 6"] p(2) by blast
  have b1: "get_protocol_name (?m 1) = ''ICMP''"
    using get_protocol_name_mapping [of "?m 1"] p(4) by blast
  have b17: "get_protocol_name (?m 17) = ''UDP''"
    using get_protocol_name_mapping [of "?m 17"] p(5) by blast
  have b112: "get_protocol_name (?m 112) = ''VRRP''"
    using get_protocol_name_mapping [of "?m 112"] p(6) by blast
  have "st_protocol (?m 47) \<notin> {1, 6, 17, 112} \<and> 0 \<le> st_protocol (?m 47)"
    unfolding p(3) by simp
  then have "decimal_value (get_protocol_name (?m 47)) = nat (st_protocol (?m 47))"
    using get_protocol_name_mapping [of "?m 47"] by blast
  then have c: "decimal_value (get_protocol_name (?m 47)) = 47"
    unfolding p(3) by simp
  from a b b1 b17 b112 c show ?thesis by simp
qed

text \<open>
  C9.  The decoders of \<open>MessageDeleteCompressed\<close>, \<open>MessageInsertAck\<close> and
  \<open>MessageUpdateReq\<close> agree on every buffer: all three refuse a buffer of fewer than
  twelve bytes, and otherwise consume the same twelve bytes, an id of eight bytes
  followed by a creator of four, both big-endian, and return records with the same id,
  the same creator and the same remainder.
\<close>

theorem id_creator_decoders_agree:
  "(length data < 12 \<longrightarrow>
      MessageDeleteCompressed_from_data data = Inl TruncatedInputError \<and>
      MessageInsertAck_from_data data = Inl TruncatedInputError \<and>
      MessageUpdateReq_from_data data = Inl TruncatedInputError) \<and>
   (12 \<le> length data \<longrightarrow>
      (\<exists>d a u.
         MessageDeleteCompressed_from_data data = Inr (d, drop 12 data) \<and>
         MessageInsertAck_from_data data = Inr (a, drop 12 data) \<and>
         MessageUpdateReq_from_data data = Inr (u, drop 12 data) \<and>
         delc_id d = be_int (take 8 data) \<and> ack_id a = delc_id d \<and> req_id u = delc_id d \<and>
         delc_creator d = be_int (take 4 (drop 8 data)) \<and>
         ack_creator a = delc_creator d \<and> req_creator u = delc_creator d)) \<and>
   be_int [] = 0 \<and> be_int (bs @ [b]) = be_int bs * 256 + uint b"
  by (simp add: MessageDeleteCompressed_from_data_eq MessageInsertAck_from_data_eq
      MessageUpdateReq_from_data_eq be_int_snoc)
     (simp add: be_int_def)

text \<open>
  A buffer of twelve bytes with the id 258 and the creator 7, and one of eleven bytes.
\<close>

theorem id_creator_decoders_agree_witness:
  "(\<exists>d a u.
     MessageDeleteCompressed_from_data [0, 0, 0, 0, 0, 0, 1, 2, 0, 0, 0, 7] = Inr (d, []) \<and>
     MessageInsertAck_from_data [0, 0, 0, 0, 0, 0, 1, 2, 0, 0, 0, 7] = Inr (a, []) \<and>
     MessageUpdateReq_from_data [0, 0, 0, 0, 0, 0, 1, 2, 0, 0, 0, 7] = Inr (u, []) \<and>
     delc_id d = 258 \<and> ack_id a = 258 \<and> req_id u = 258 \<and>
     delc_creator d = 7 \<and> ack_creator a = 7 \<and> req_creator u = 7)
   \<and> MessageDeleteCompressed_from_data (replicate 11 0) = Inl TruncatedInputError
   \<and> MessageInsertAck_from_data (replicate 11 0) = Inl TruncatedInputError
   \<and> MessageUpdateReq_from_data (replicate 11 0) = Inl TruncatedInputError"
proof -
  let ?d = "[0, 0, 0, 0, 0, 0, 1, 2, 0, 0, 0, 7] :: bytes"
  have v: "be_int (take 8 ?d) = 258" "be_int (take 4 (drop 8 ?d)) = 7" "drop 12 ?d = []"
    by (simp_all add: be_int_def)
  have "12 \<le> length ?d" by simp
  then have "\<exists>d a u.
         MessageDeleteCompressed_from_data ?d = Inr (d, drop 12 ?d) \<and>
         MessageInsertAck_from_data ?d = Inr (a, drop 12 ?d) \<and>
         MessageUpdateReq_from_data ?d = Inr (u, drop 12 ?d) \<and>
         delc_id d = be_int (take 8 ?d) \<and> ack_id a = delc_id d \<and> req_id u = delc_id d \<and>
         delc_creator d = be_int (take 4 (drop 8 ?d)) \<and>
         ack_creator a = delc_creator d \<and> req_creator u = delc_creator d"
    using id_creator_decoders_agree [of ?d] by blast
  then have a: "\<exists>d a u.
     MessageDeleteCompressed_from_data ?d = Inr (d, []) \<and>
     MessageInsertAck_from_data ?d = Inr (a, []) \<and>
     MessageUpdateReq_from_data ?d = Inr (u, []) \<and>
     delc_id d = 258 \<and> ack_id a = 258 \<and> req_id u = 258 \<and>
     delc_creator d = 7 \<and> ack_creator a = 7 \<and> req_creator u = 7"
    unfolding v by metis
  have "length (replicate 11 (0 :: byte)) < 12" by simp
  then have b: "MessageDeleteCompressed_from_data (replicate 11 0) = Inl TruncatedInputError \<and>
      MessageInsertAck_from_data (replicate 11 0) = Inl TruncatedInputError \<and>
      MessageUpdateReq_from_data (replicate 11 0) = Inl TruncatedInputError"
    using id_creator_decoders_agree [of "replicate 11 0"] by blast
  from a b show ?thesis by blast
qed

text \<open>
  C10.  A decoded \<open>MessageClear\<close> keeps the sixteen bytes of the interface name
  as they are, NUL bytes included; a decoded \<open>MessageState\<close> keeps the bytes in
  front of the first NUL only.  So the two classes give different interface names for
  the same sixteen bytes as soon as these contain a NUL.
\<close>

theorem interface_clear_verbatim_state_truncated:
  "MessageClear_init [PyBytes iface, PyInt c] = Inr \<lparr>clr_interface = iface, clr_creator = c\<rparr> \<and>
   (20 \<le> length d \<longrightarrow>
      (\<exists>m. MessageClear_from_data d = Inr (m, drop 20 d) \<and>
           clr_interface m = take 16 d \<and> length (clr_interface m) = 16)) \<and>
   (242 \<le> length s \<longrightarrow>
      (\<exists>m. MessageState_from_data s = Inr (m, drop 242 s) \<and>
           st_interface m = takeWhile (\<lambda>b. b \<noteq> 0) (take 16 (drop 8 s)) \<and>
           0 \<notin> set (st_interface m))) \<and>
   (20 \<le> length d \<and> 242 \<le> length s \<and> take 16 d = take 16 (drop 8 s) \<and> 0 \<in> set (take 16 d) \<longrightarrow>
      clr_interface (fst (projr (MessageClear_from_data d)))
        \<noteq> st_interface (fst (projr (MessageState_from_data s))))"
proof (intro conjI impI)
  show "MessageClear_init [PyBytes iface, PyInt c] = Inr \<lparr>clr_interface = iface, clr_creator = c\<rparr>"
    by (simp add: MessageClear_init_def)
  show "\<exists>m. MessageClear_from_data d = Inr (m, drop 20 d) \<and>
           clr_interface m = take 16 d \<and> length (clr_interface m) = 16"
    if "20 \<le> length d"
    using that by (simp add: MessageClear_from_data_eq)
  have nul: "0 \<notin> set (takeWhile (\<lambda>b. b \<noteq> 0) xs)" for xs :: bytes
    by (auto dest: set_takeWhileD)
  show "\<exists>m. MessageState_from_data s = Inr (m, drop 242 s) \<and>
           st_interface m = takeWhile (\<lambda>b. b \<noteq> 0) (take 16 (drop 8 s)) \<and>
           0 \<notin> set (st_interface m)"
    if "242 \<le> length s"
    using that nul by (simp add: MessageState_from_data_eq split_nul_first_def)
  show "clr_interface (fst (projr (MessageClear_from_data d)))
        \<noteq> st_interface (fst (projr (MessageState_from_data s)))"
    if h: "20 \<le> length d \<and> 242 \<le> length s \<and> take 16 d = take 16 (drop 8 s) \<and> 0 \<in> set (take 16 d)"
  proof -
    from h have c: "clr_interface (fst (projr (MessageClear_from_data d))) = take 16 d"
      by (simp add: MessageClear_from_data_eq)
    from h have t: "st_interface (fst (projr (MessageState_from_data s)))
        = takeWhile (\<lambda>b. b \<noteq> 0) (take 16 d)"
      by (simp add: MessageState_from_data_eq split_nul_first_def)
    from h nul [of "take 16 d"] have "take 16 d \<noteq> takeWhile (\<lambda>b. b \<noteq> 0) (take 16 d)"
      by metis
    with c t show ?thesis by simp
  qed
qed

text \<open>
  The name \<open>em0\<close> padded with NUL bytes, in a clear message and in a state
  message.
\<close>

theorem interface_clear_verbatim_state_truncated_witness:
  "clr_interface (fst (projr (MessageClear_from_data ([101, 109, 48] @ replicate 17 0))))
     = [101, 109, 48] @ replicate 13 0
   \<and> st_interface (fst (projr (MessageState_from_data
        (replicate 8 0 @ [101, 109, 48] @ replicate 231 0)))) = [101, 109, 48]
   \<and> clr_interface (fst (projr (MessageClear_from_data ([101, 109, 48] @ replicate 17 0))))
     \<noteq> st_interface (fst (projr (MessageState_from_data
        (replicate 8 0 @ [101, 109, 48] @ replicate 231 0))))"
proof -
  let ?d = "[101, 109, 48] @ replicate 17 0 :: bytes"
  let ?s = "replicate 8 0 @ [101, 109, 48] @ replicate 231 0 :: bytes"
  have "20 \<le> length ?d" by simp
  then obtain m where m: "MessageClear_from_data ?d = Inr (m, drop 20 ?d)"
    "clr_interface m = take 16 ?d"
    using interface_clear_verbatim_state_truncated [of _ _ ?d] by blast
  have v: "take 16 ?d = [101, 109, 48] @ replicate 13 0" by code_simp
  have a: "clr_interface (fst (projr (MessageClear_from_data ?d))) = [101, 109, 48] @ replicate 13 0"
    by (simp only: m v sum.sel fst_conv)
  have "242 \<le> length ?s" by simp
  then obtain n where n: "MessageState_from_data ?s = Inr (n, drop 242 ?s)"
    "st_interface n = takeWhile (\<lambda>b. b \<noteq> 0) (take 16 (drop 8 ?s))"
    using interface_clear_verbatim_state_truncated [of _ _ _ ?s] by blast
  have w: "takeWhile (\<lambda>b. b \<noteq> 0) (take 16 (drop 8 ?s)) = [101, 109, 48]" by code_simp
  have b: "st_interface (fst (projr (MessageState_from_data ?s))) = [101, 109, 48]"
    by (simp only: n w sum.sel fst_conv)
  have "20 \<le> length ?d \<and> 242 \<le> length ?s \<and> take 16 ?d = take 16 (drop 8 ?s) \<and> 0 \<in> set (take 16 ?d)"
    by code_simp
  then have c: "clr_interface (fst (projr (MessageClear_from_data ?d)))
      \<noteq> st_interface (fst (projr (MessageState_from_data ?s)))"
    using interface_clear_verbatim_state_truncated [of _ _ ?d ?s] by blast
  from a b c show ?thesis by blast
qed

end
